theory Spec2Isabelle
  imports Main
begin

section \<open>Data model\<close>

text \<open>
  The rows of the hosted backend, as the interfaces of \<^verbatim>\<open>AuthContext.tsx\<close> and of the
  post generator declare them. A TypeScript \<^verbatim>\<open>string\<close> that the code only stores and
  compares is a \<^typ>\<open>string\<close>, a \<^verbatim>\<open>string | null\<close> or optional field is an option,
  and a \<^verbatim>\<open>number\<close> that holds a counter is an \<^typ>\<open>int\<close> (a JavaScript double adds 1
  exactly below \<open>2 ^ 53\<close>; counters of that size are outside the model).

  A service name is different: the profile screen trims it, which looks at its
  characters. It is the sequence of its UTF-16 code units, as a JavaScript string is,
  each a number (below \<open>65536\<close> in a real string; nothing below depends on the bound).
  \<open>js\<close> writes such a string from its ASCII text.
\<close>

type_synonym js_string = "nat list"

definition js :: "string \<Rightarrow> js_string" where
  "js s = map of_char s"

record user =
  user_id :: string
  user_email :: string
  first_name :: string
  last_name :: string
  user_role :: string
  user_company_id :: string

record company =
  company_id :: string
  company_name :: string
  business_sector :: string
  services :: "js_string list"
  target_audience :: string
  brand_colors :: "string list"
  logo_url :: "string option"
  tone_of_voice :: string
  visual_style :: string

record pack =
  pack_id :: string
  pack_company_id :: string
  pack_type :: string
  monthly_posts_limit :: int
  posts_used :: int
  price :: int
  status :: string

text \<open>
  The \<^verbatim>\<open>Template\<close> interface has no \<^verbatim>\<open>is_active\<close> field, but the query of
  \<^verbatim>\<open>loadTemplates\<close> filters on that column, so the row has it.
\<close>

record template =
  template_id :: string
  template_name :: string
  category :: string
  prompt_base :: string
  thumbnail_url :: "string option"
  works_best_for :: "string list"
  platforms :: "string list"
  formats :: "string list"
  is_active :: bool

text \<open>The object that \<^verbatim>\<open>handleGenerate\<close> inserts into \<^verbatim>\<open>generated_post\<close>.\<close>

record generated_post =
  post_company_id :: string
  post_platform :: string
  post_format :: string
  post_template_id :: string
  post_user_suggestions :: string
  post_image_url :: string
  caption_text :: string
  post_hashtags :: "string list"
  created_at :: string

text \<open>The JSON body that \<^verbatim>\<open>handleGenerate\<close> posts to the generation webhook.\<close>

record gen_request =
  req_company_id :: string
  req_company_name :: string
  req_business_sector :: string
  req_services :: "js_string list"
  req_target_audience :: string
  req_brand_colors :: "string list"
  req_tone_of_voice :: string
  req_visual_style :: string
  req_platform :: string
  req_format :: string
  req_template_id :: string
  req_template_name :: string
  req_prompt_base :: string
  req_user_suggestions :: string

text \<open>What the webhook answers, and what \<^verbatim>\<open>setGeneratedPost\<close> stores.\<close>

record gen_data =
  image_url :: string
  caption :: string
  hashtags :: "string list"

text \<open>The object of the company \<^verbatim>\<open>update\<close> that the profile screen sends.\<close>

record company_update =
  upd_name :: string
  upd_business_sector :: string
  upd_services :: "js_string list"
  upd_target_audience :: string
  upd_brand_colors :: "string list"
  upd_logo_url :: "string option"
  upd_tone_of_voice :: string
  upd_visual_style :: string
  upd_updated_at :: string

text \<open>
  An error is either an error object that the backend returned (\<open>BackendError\<close>, with
  its message) or a JavaScript \<^verbatim>\<open>Error\<close> that the client code threw itself.
\<close>

datatype err = BackendError string | JsError string

fun err_message :: "err \<Rightarrow> string" where
  "err_message (BackendError m) = m"
| "err_message (JsError m) = m"

section \<open>The backend and the browser\<close>

text \<open>Every request that leaves the client, in the shape the source builds it.\<close>

datatype call =
    AuthSignInWithPassword string string
  | AuthSignUp string string
  | AuthSignOut
  | SelectUser string
  | SelectCompany string
  | SelectActivePack string
  | SelectTemplates string string
  | InsertCompany company
  | InsertUser user
  | UpdateCompany string company_update
  | InsertGeneratedPost generated_post
  | UpdatePackPostsUsed string int
  | PostWebhook gen_request

text \<open>The two \<^verbatim>\<open>alert\<close> boxes of the post generator (their texts are French).\<close>

datatype alert = LimitReachedAlert | GenerationErrorAlert

text \<open>
  The outcome of the \<^verbatim>\<open>fetch\<close> of the webhook: the promise rejects
  (\<open>NetworkFailure\<close>), or a response arrives with its \<^verbatim>\<open>ok\<close> flag and a body that
  parses to the expected object or does not (\<open>None\<close>: \<^verbatim>\<open>response.json()\<close> throws).
\<close>

datatype webhook_result = NetworkFailure | Response bool "gen_data option"

text \<open>
  Modelled from the spec: the hosted backend behind the \<^verbatim>\<open>supabase\<close> client
  (\<^verbatim>\<open>src/lib/supabase\<close> and the service are not among the sources). Following
  sections 2 and 6 of the specification it is a set of named collections of rows keyed
  by an identifier, with equality and containment filters, plus an auth subsystem, and
  the generation webhook is an opaque remote function. \<open>accounts\<close> holds the auth
  identities as (email, password, identifier); \<open>rejects\<close> is the backend's policy: a
  request it maps to an error is answered with that error and changes nothing;
  \<open>id_gen\<close> and \<open>id_count\<close> yield the identifiers the backend assigns.
\<close>

record backend =
  accounts :: "(string \<times> string \<times> string) list"
  session :: "string option"
  user_tbl :: "user list"
  company_tbl :: "company list"
  pack_tbl :: "pack list"
  template_tbl :: "template list"
  post_tbl :: "generated_post list"
  rejects :: "call \<Rightarrow> err option"
  id_gen :: "nat \<Rightarrow> string"
  id_count :: nat
  webhook :: "gen_request \<Rightarrow> webhook_result"

text \<open>
  Everything outside the React state: the backend, the requests sent so far (oldest
  first), the diagnostics written with \<^verbatim>\<open>console.error\<close>, the alerts shown, the
  routes navigated to and the browser's local storage.
\<close>

record world =
  db :: backend
  log :: "call list"
  console :: "err list"
  alerts :: "alert list"
  navigations :: "string list"
  localStorage :: "string \<rightharpoonup> string"

definition sent :: "call \<Rightarrow> world \<Rightarrow> world" where
  "sent c w = w\<lparr>log := log w @ [c]\<rparr>"

definition console_error :: "err \<Rightarrow> world \<Rightarrow> world" where
  "console_error e w = w\<lparr>console := console w @ [e]\<rparr>"

definition show_alert :: "alert \<Rightarrow> world \<Rightarrow> world" where
  "show_alert a w = w\<lparr>alerts := alerts w @ [a]\<rparr>"

definition navigate :: "string \<Rightarrow> world \<Rightarrow> world" where
  "navigate r w = w\<lparr>navigations := navigations w @ [r]\<rparr>"

text \<open>
  Modelled from the spec: \<^verbatim>\<open>.single()\<close> of the client library, which is not among
  the sources: the one matching row, or an error when there is none or more than one.
\<close>

definition single :: "'a list \<Rightarrow> err + 'a" where
  "single rows = (case rows of [r] \<Rightarrow> Inr r | _ \<Rightarrow> Inl (BackendError ''PGRST116''))"

text \<open>
  Modelled from the spec: the auth operations of the \<^verbatim>\<open>supabase\<close> client
  (sign-in-with-credentials, sign-up-with-credentials, sign-out; the client library is
  not among the sources). The client never throws: each request returns its
  \<^verbatim>\<open>{ data, error }\<close> pair, here a sum, together with the world after the request,
  which is how every call site of the source reads it.
\<close>

definition auth_signInWithPassword ::
    "string \<Rightarrow> string \<Rightarrow> world \<Rightarrow> (err + string option) \<times> world" where
  "auth_signInWithPassword email password w =
     (let c = AuthSignInWithPassword email password; w1 = sent c w in
      case rejects (db w) c of
        Some e \<Rightarrow> (Inl e, w1)
      | None \<Rightarrow>
          (case filter (\<lambda>(e, p, i). e = email \<and> p = password) (accounts (db w)) of
             [] \<Rightarrow> (Inl (BackendError ''Invalid login credentials''), w1)
           | (e, p, i) # _ \<Rightarrow> (Inr (Some i), w1\<lparr>db := (db w)\<lparr>session := Some i\<rparr>\<rparr>)))"

definition auth_signUp ::
    "string \<Rightarrow> string \<Rightarrow> world \<Rightarrow> (err + string option) \<times> world" where
  "auth_signUp email password w =
     (let c = AuthSignUp email password; w1 = sent c w in
      case rejects (db w) c of
        Some e \<Rightarrow> (Inl e, w1)
      | None \<Rightarrow>
          if email \<in> set (map fst (accounts (db w)))
          then (Inl (BackendError ''User already registered''), w1)
          else
            (let i = id_gen (db w) (id_count (db w)) in
             (Inr (Some i),
              w1\<lparr>db := (db w)\<lparr>accounts := accounts (db w) @ [(email, password, i)],
                                session := Some i,
                                id_count := Suc (id_count (db w))\<rparr>\<rparr>)))"

definition auth_signOut :: "world \<Rightarrow> (err + unit) \<times> world" where
  "auth_signOut w =
     (let w1 = sent AuthSignOut w in
      case rejects (db w) AuthSignOut of
        Some e \<Rightarrow> (Inl e, w1)
      | None \<Rightarrow> (Inr (), w1\<lparr>db := (db w)\<lparr>session := None\<rparr>\<rparr>))"

text \<open>
  Modelled from the spec: the backend's answers to the lookups of the load chain
  (\<^verbatim>\<open>.select('*').eq(...).single()\<close>, equality on the identifier, the foreign
  key and the status), and the requests that obtain them.
\<close>

definition find_user :: "string \<Rightarrow> backend \<Rightarrow> err + user" where
  "find_user uid b =
     (case rejects b (SelectUser uid) of
        Some e \<Rightarrow> Inl e
      | None \<Rightarrow> single (filter (\<lambda>u. user_id u = uid) (user_tbl b)))"

definition find_company :: "string \<Rightarrow> backend \<Rightarrow> err + company" where
  "find_company cid b =
     (case rejects b (SelectCompany cid) of
        Some e \<Rightarrow> Inl e
      | None \<Rightarrow> single (filter (\<lambda>c. company_id c = cid) (company_tbl b)))"

definition find_active_pack :: "string \<Rightarrow> backend \<Rightarrow> err + pack" where
  "find_active_pack cid b =
     (case rejects b (SelectActivePack cid) of
        Some e \<Rightarrow> Inl e
      | None \<Rightarrow>
          single (filter (\<lambda>p. pack_company_id p = cid \<and> status p = ''active'') (pack_tbl b)))"

definition select_user_single :: "string \<Rightarrow> world \<Rightarrow> (err + user) \<times> world" where
  "select_user_single uid w = (find_user uid (db w), sent (SelectUser uid) w)"

definition select_company_single :: "string \<Rightarrow> world \<Rightarrow> (err + company) \<times> world" where
  "select_company_single cid w = (find_company cid (db w), sent (SelectCompany cid) w)"

definition select_active_pack_single :: "string \<Rightarrow> world \<Rightarrow> (err + pack) \<times> world" where
  "select_active_pack_single cid w =
     (find_active_pack cid (db w), sent (SelectActivePack cid) w)"

text \<open>
  Modelled from the spec: the inserts of the sign-up sequence.
  \<^verbatim>\<open>.insert(row).select().single()\<close> on \<^verbatim>\<open>company\<close>: the backend assigns the
  identifier, refuses a duplicate key, and returns the stored row; on \<^verbatim>\<open>user\<close> the
  client supplies the key.
\<close>

definition insert_company :: "company \<Rightarrow> world \<Rightarrow> (err + company option) \<times> world" where
  "insert_company row w =
     (let c = InsertCompany row; w1 = sent c w in
      case rejects (db w) c of
        Some e \<Rightarrow> (Inl e, w1)
      | None \<Rightarrow>
          (let stored = row\<lparr>company_id := id_gen (db w) (id_count (db w))\<rparr> in
           if company_id stored \<in> set (map company_id (company_tbl (db w)))
           then (Inl (BackendError ''23505''), w1)
           else (Inr (Some stored),
                 w1\<lparr>db := (db w)\<lparr>company_tbl := company_tbl (db w) @ [stored],
                                   id_count := Suc (id_count (db w))\<rparr>\<rparr>)))"

definition insert_user :: "user \<Rightarrow> world \<Rightarrow> (err + user) \<times> world" where
  "insert_user row w =
     (let c = InsertUser row; w1 = sent c w in
      case rejects (db w) c of
        Some e \<Rightarrow> (Inl e, w1)
      | None \<Rightarrow>
          if user_id row \<in> set (map user_id (user_tbl (db w)))
          then (Inl (BackendError ''23505''), w1)
          else (Inr row, w1\<lparr>db := (db w)\<lparr>user_tbl := user_tbl (db w) @ [row]\<rparr>\<rparr>))"

section \<open>The session context (AuthContext.tsx)\<close>

record auth_ctx =
  ctx_user :: "user option"
  ctx_company :: "company option"
  ctx_pack :: "pack option"
  ctx_loading :: bool

text \<open>
  \<^verbatim>\<open>loadUserData\<close>: the \<^verbatim>\<open>try\<close> block with its \<^verbatim>\<open>catch\<close> (which only writes a
  diagnostic) and its \<^verbatim>\<open>finally\<close> (which clears the loading flag). The function never
  throws, so it returns no error value.
\<close>

definition loadUserData :: "string \<Rightarrow> auth_ctx \<Rightarrow> world \<Rightarrow> auth_ctx \<times> world" where
  "loadUserData userId ctx w =
     (case select_user_single userId w of
        (Inl userError, w1) \<Rightarrow> (ctx\<lparr>ctx_loading := False\<rparr>, console_error userError w1)
      | (Inr userData, w1) \<Rightarrow>
          (let ctx1 = ctx\<lparr>ctx_user := Some userData\<rparr> in
           if user_company_id userData \<noteq> [] then
             (case select_company_single (user_company_id userData) w1 of
                (Inl companyError, w2) \<Rightarrow>
                  (ctx1\<lparr>ctx_loading := False\<rparr>, console_error companyError w2)
              | (Inr companyData, w2) \<Rightarrow>
                  (let ctx2 = ctx1\<lparr>ctx_company := Some companyData\<rparr> in
                   case select_active_pack_single (user_company_id userData) w2 of
                     (Inl packError, w3) \<Rightarrow> (ctx2\<lparr>ctx_loading := False\<rparr>, w3)
                   | (Inr packData, w3) \<Rightarrow>
                       (ctx2\<lparr>ctx_pack := Some packData, ctx_loading := False\<rparr>, w3)))
           else (ctx1\<lparr>ctx_loading := False\<rparr>, w1)))"

definition refreshData :: "auth_ctx \<Rightarrow> world \<Rightarrow> auth_ctx \<times> world" where
  "refreshData ctx w =
     (case ctx_user ctx of
        Some u \<Rightarrow> loadUserData (user_id u) ctx w
      | None \<Rightarrow> (ctx, w))"

definition signIn ::
    "string \<Rightarrow> string \<Rightarrow> auth_ctx \<Rightarrow> world \<Rightarrow> (err + unit) \<times> auth_ctx \<times> world" where
  "signIn email password ctx w =
     (case auth_signInWithPassword email password w of
        (Inl error, w1) \<Rightarrow> (Inl error, ctx, w1)
      | (Inr None, w1) \<Rightarrow> (Inr (), ctx, w1)
      | (Inr (Some uid), w1) \<Rightarrow>
          (case loadUserData uid ctx w1 of (ctx', w2) \<Rightarrow> (Inr (), ctx', w2)))"

text \<open>The row of step 2 of \<^verbatim>\<open>signUp\<close>; the backend fills in the identifier.\<close>

definition new_company :: "string \<Rightarrow> company" where
  "new_company companyName =
     \<lparr>company_id = [], company_name = companyName, business_sector = [], services = [],
      target_audience = [], brand_colors = [], logo_url = None, tone_of_voice = [],
      visual_style = []\<rparr>"

text \<open>The row of step 3 of \<^verbatim>\<open>signUp\<close>.\<close>

definition new_user :: "string \<Rightarrow> string \<Rightarrow> string \<Rightarrow> string \<Rightarrow> string \<Rightarrow> user" where
  "new_user userId email firstName lastName companyId =
     \<lparr>user_id = userId, user_email = email, first_name = firstName, last_name = lastName,
      user_role = ''user'', user_company_id = companyId\<rparr>"

definition signUp ::
    "string \<Rightarrow> string \<Rightarrow> string \<Rightarrow> string \<Rightarrow> string \<Rightarrow> auth_ctx \<Rightarrow> world
      \<Rightarrow> (err + unit) \<times> auth_ctx \<times> world" where
  "signUp email password firstName lastName companyName ctx w =
     (case auth_signUp email password w of
        (Inl authError, w1) \<Rightarrow> (Inl authError, ctx, w1)
      | (Inr None, w1) \<Rightarrow> (Inl (JsError ''No user returned from signup''), ctx, w1)
      | (Inr (Some userId), w1) \<Rightarrow>
          (case insert_company (new_company companyName) w1 of
             (Inl companyError, w2) \<Rightarrow> (Inl companyError, ctx, w2)
           | (Inr None, w2) \<Rightarrow> (Inl (JsError ''No company returned from insert''), ctx, w2)
           | (Inr (Some companyData), w2) \<Rightarrow>
               (case insert_user
                       (new_user userId email firstName lastName (company_id companyData))
                       w2 of
                  (Inl userError, w3) \<Rightarrow> (Inl userError, ctx, w3)
                | (Inr _, w3) \<Rightarrow>
                    (case loadUserData userId ctx w3 of
                       (ctx', w4) \<Rightarrow> (Inr (), ctx', w4)))))"

text \<open>
  \<^verbatim>\<open>signOut\<close> awaits the backend call and ignores the pair it returns, then clears
  the three entities.
\<close>

definition signOut :: "auth_ctx \<Rightarrow> world \<Rightarrow> auth_ctx \<times> world" where
  "signOut ctx w =
     (case auth_signOut w of
        (_, w1) \<Rightarrow> (ctx\<lparr>ctx_user := None, ctx_company := None, ctx_pack := None\<rparr>, w1))"

section \<open>Further backend requests\<close>

text \<open>
  Modelled from the spec: the remaining backend operations (set-containment filter,
  insert, update by identifier) and the webhook, none of them among the sources.
  The template query of \<^verbatim>\<open>loadTemplates\<close>: \<^verbatim>\<open>.eq('is_active', true)\<close>, then
  \<^verbatim>\<open>.contains('platforms', [platform])\<close> and \<^verbatim>\<open>.contains('formats', [format])\<close>,
  where \<^verbatim>\<open>contains\<close> asks that the column holds every element of the given array.
\<close>

definition find_templates :: "string \<Rightarrow> string \<Rightarrow> backend \<Rightarrow> err + template list option" where
  "find_templates p f b =
     (case rejects b (SelectTemplates p f) of
        Some e \<Rightarrow> Inl e
      | None \<Rightarrow>
          Inr (Some (filter (\<lambda>t. is_active t = True
                               \<and> set [p] \<subseteq> set (platforms t)
                               \<and> set [f] \<subseteq> set (formats t))
                       (template_tbl b))))"

definition select_templates ::
    "string \<Rightarrow> string \<Rightarrow> world \<Rightarrow> (err + template list option) \<times> world" where
  "select_templates p f w = (find_templates p f (db w), sent (SelectTemplates p f) w)"

definition post_webhook :: "gen_request \<Rightarrow> world \<Rightarrow> webhook_result \<times> world" where
  "post_webhook body w = (webhook (db w) body, sent (PostWebhook body) w)"

definition insert_generated_post :: "generated_post \<Rightarrow> world \<Rightarrow> (err + unit) \<times> world" where
  "insert_generated_post row w =
     (let c = InsertGeneratedPost row; w1 = sent c w in
      case rejects (db w) c of
        Some e \<Rightarrow> (Inl e, w1)
      | None \<Rightarrow> (Inr (), w1\<lparr>db := (db w)\<lparr>post_tbl := post_tbl (db w) @ [row]\<rparr>\<rparr>))"

text \<open>\<^verbatim>\<open>.update({ posts_used: n }).eq('id', pid)\<close> on \<^verbatim>\<open>pack\<close>.\<close>

definition update_pack_posts_used ::
    "string \<Rightarrow> int \<Rightarrow> world \<Rightarrow> (err + unit) \<times> world" where
  "update_pack_posts_used pid n w =
     (let c = UpdatePackPostsUsed pid n; w1 = sent c w in
      case rejects (db w) c of
        Some e \<Rightarrow> (Inl e, w1)
      | None \<Rightarrow>
          (Inr (),
           w1\<lparr>db := (db w)\<lparr>pack_tbl :=
                 map (\<lambda>p. if pack_id p = pid then p\<lparr>posts_used := n\<rparr> else p)
                     (pack_tbl (db w))\<rparr>\<rparr>))"

definition apply_company_update :: "company_update \<Rightarrow> company \<Rightarrow> company" where
  "apply_company_update u c =
     c\<lparr>company_name := upd_name u, business_sector := upd_business_sector u,
       services := upd_services u, target_audience := upd_target_audience u,
       brand_colors := upd_brand_colors u, logo_url := upd_logo_url u,
       tone_of_voice := upd_tone_of_voice u, visual_style := upd_visual_style u\<rparr>"

text \<open>\<^verbatim>\<open>.update(fields).eq('id', cid)\<close> on \<^verbatim>\<open>company\<close>.\<close>

definition update_company ::
    "string \<Rightarrow> company_update \<Rightarrow> world \<Rightarrow> (err + unit) \<times> world" where
  "update_company cid u w =
     (let c = UpdateCompany cid u; w1 = sent c w in
      case rejects (db w) c of
        Some e \<Rightarrow> (Inl e, w1)
      | None \<Rightarrow>
          (Inr (),
           w1\<lparr>db := (db w)\<lparr>company_tbl :=
                 map (\<lambda>r. if company_id r = cid then apply_company_update u r else r)
                     (company_tbl (db w))\<rparr>\<rparr>))"

section \<open>The post generator\<close>

text \<open>The component state of \<^verbatim>\<open>PostGenerator\<close> that its handlers read and write.\<close>

record generator =
  platform :: string
  format :: string
  templates :: "template list"
  selectedTemplate :: "template option"
  loadingTemplates :: bool
  userSuggestions :: string
  generating :: bool
  generatedPost :: "gen_data option"

text \<open>
  \<^verbatim>\<open>loadTemplates\<close>: the query result replaces the list (\<^verbatim>\<open>data || []\<close>); an error is
  caught, written to the console, and leaves the list empty.
\<close>

definition loadTemplates :: "generator \<Rightarrow> world \<Rightarrow> generator \<times> world" where
  "loadTemplates g w =
     (let g1 = g\<lparr>loadingTemplates := True\<rparr> in
      case select_templates (platform g) (format g) w of
        (Inl error, w1) \<Rightarrow>
          (g1\<lparr>templates := [], loadingTemplates := False\<rparr>, console_error error w1)
      | (Inr data, w1) \<Rightarrow>
          (g1\<lparr>templates := (case data of Some rows \<Rightarrow> rows | None \<Rightarrow> []),
              loadingTemplates := False\<rparr>, w1))"

definition webhook_body :: "company \<Rightarrow> template \<Rightarrow> generator \<Rightarrow> gen_request" where
  "webhook_body c t g =
     \<lparr>req_company_id = company_id c, req_company_name = company_name c,
      req_business_sector = business_sector c, req_services = services c,
      req_target_audience = target_audience c, req_brand_colors = brand_colors c,
      req_tone_of_voice = tone_of_voice c, req_visual_style = visual_style c,
      req_platform = platform g, req_format = format g,
      req_template_id = template_id t, req_template_name = template_name t,
      req_prompt_base = prompt_base t, req_user_suggestions = userSuggestions g\<rparr>"

definition post_row ::
    "string \<Rightarrow> company \<Rightarrow> template \<Rightarrow> generator \<Rightarrow> gen_data \<Rightarrow> generated_post" where
  "post_row now c t g d =
     \<lparr>post_company_id = company_id c, post_platform = platform g, post_format = format g,
      post_template_id = template_id t, post_user_suggestions = userSuggestions g,
      post_image_url = image_url d, caption_text = caption d, post_hashtags = hashtags d,
      created_at = now\<rparr>"

text \<open>
  The \<^verbatim>\<open>catch\<close> and \<^verbatim>\<open>finally\<close> blocks of \<^verbatim>\<open>handleGenerate\<close>: a diagnostic, the
  generic alert, and the \<^verbatim>\<open>generating\<close> flag cleared.
\<close>

definition generate_caught :: "err \<Rightarrow> generator \<Rightarrow> world \<Rightarrow> generator \<times> world" where
  "generate_caught e g w =
     (g\<lparr>generating := False\<rparr>, show_alert GenerationErrorAlert (console_error e w))"

text \<open>The quota test \<^verbatim>\<open>pack && pack.posts_used >= pack.monthly_posts_limit\<close>.\<close>

definition quota_reached :: "auth_ctx \<Rightarrow> bool" where
  "quota_reached ctx =
     (case ctx_pack ctx of
        Some p \<Rightarrow> posts_used p \<ge> monthly_posts_limit p
      | None \<Rightarrow> False)"

text \<open>
  \<^verbatim>\<open>handleGenerate\<close>; \<open>now\<close> is the timestamp \<^verbatim>\<open>new Date().toISOString()\<close>. The
  pair returned by the \<^verbatim>\<open>pack\<close> update is awaited and dropped, as in the source.
\<close>

definition handleGenerate ::
    "string \<Rightarrow> auth_ctx \<Rightarrow> generator \<Rightarrow> world \<Rightarrow> generator \<times> world" where
  "handleGenerate now ctx g w =
     (case ctx_company ctx of
        None \<Rightarrow> (g, w)
      | Some c \<Rightarrow>
          if company_id c = [] then (g, w)
          else
            (case selectedTemplate g of
               None \<Rightarrow> (g, w)
             | Some t \<Rightarrow>
                 if quota_reached ctx then (g, show_alert LimitReachedAlert w)
                 else
                   (let g1 = g\<lparr>generating := True\<rparr> in
                    case post_webhook (webhook_body c t g) w of
                      (NetworkFailure, w1) \<Rightarrow>
                        generate_caught (JsError ''Failed to fetch'') g1 w1
                    | (Response ok body, w1) \<Rightarrow>
                        if \<not> ok then generate_caught (JsError ''Erreur generation'') g1 w1
                        else
                          (case body of
                             None \<Rightarrow> generate_caught (JsError ''SyntaxError'') g1 w1
                           | Some d \<Rightarrow>
                               (case insert_generated_post (post_row now c t g d) w1 of
                                  (Inl insertError, w2) \<Rightarrow> generate_caught insertError g1 w2
                                | (Inr _, w2) \<Rightarrow>
                                    (let w3 = (case ctx_pack ctx of
                                                 Some p \<Rightarrow>
                                                   snd (update_pack_posts_used (pack_id p)
                                                          (posts_used p + 1) w2)
                                               | None \<Rightarrow> w2)
                                     in (g1\<lparr>generatedPost := Some d, generating := False\<rparr>,
                                         w3)))))))"

section \<open>The profile screen\<close>

text \<open>
  \<^verbatim>\<open>String.prototype.trim\<close> strips the code points of WhiteSpace and LineTerminator
  from both ends: tab, line feed, vertical tab, form feed, carriage return, space,
  U+00A0, U+1680, U+2000 to U+200A, U+2028, U+2029, U+202F, U+205F, U+3000 and U+FEFF.
  All of them are single code units.
\<close>

definition is_space :: "nat \<Rightarrow> bool" where
  "is_space u =
     (u \<in> set [0x0009, 0x000A, 0x000B, 0x000C, 0x000D, 0x0020, 0x00A0, 0x1680,
               0x2000, 0x2001, 0x2002, 0x2003, 0x2004, 0x2005, 0x2006, 0x2007, 0x2008,
               0x2009, 0x200A, 0x2028, 0x2029, 0x202F, 0x205F, 0x3000, 0xFEFF])"

definition trim :: "js_string \<Rightarrow> js_string" where
  "trim s = rev (dropWhile is_space (rev (dropWhile is_space s)))"

datatype message_type = Success | Error

record profile_form =
  form_name :: string
  businessSector :: string
  form_services :: "js_string list"
  targetAudience :: string
  brandColors :: "string list"
  logoUrl :: string
  toneOfVoice :: string
  visualStyle :: string
  form_loading :: bool
  message :: "(message_type \<times> string) option"
  newService :: js_string

text \<open>
  The effect of the profile screen that copies the company of the context into the
  form whenever that company changes (\<^verbatim>\<open>useEffect(..., [company])\<close>). Each field is
  copied with \<^verbatim>\<open>value || default\<close>; an array is never replaced by its default, and a
  missing logo gives the empty string.
\<close>

definition company_effect :: "auth_ctx \<Rightarrow> profile_form \<Rightarrow> profile_form" where
  "company_effect ctx f =
     (case ctx_company ctx of
        None \<Rightarrow> f
      | Some c \<Rightarrow>
          f\<lparr>form_name := company_name c, businessSector := business_sector c,
            form_services := services c, targetAudience := target_audience c,
            brandColors := brand_colors c,
            logoUrl := (case logo_url c of Some l \<Rightarrow> l | None \<Rightarrow> []),
            toneOfVoice := tone_of_voice c, visualStyle := visual_style c\<rparr>)"

definition handleAddService :: "profile_form \<Rightarrow> profile_form" where
  "handleAddService f =
     (if trim (newService f) \<noteq> [] \<and> \<not> (trim (newService f) \<in> set (form_services f))
      then f\<lparr>form_services := form_services f @ [trim (newService f)], newService := []\<rparr>
      else f)"

definition handleRemoveService :: "js_string \<Rightarrow> profile_form \<Rightarrow> profile_form" where
  "handleRemoveService serviceToRemove f =
     f\<lparr>form_services := filter (\<lambda>s. s \<noteq> serviceToRemove) (form_services f)\<rparr>"

definition form_update :: "string \<Rightarrow> profile_form \<Rightarrow> company_update" where
  "form_update now f =
     \<lparr>upd_name = form_name f, upd_business_sector = businessSector f,
      upd_services = form_services f, upd_target_audience = targetAudience f,
      upd_brand_colors = brandColors f,
      upd_logo_url = (if logoUrl f \<noteq> [] then Some (logoUrl f) else None),
      upd_tone_of_voice = toneOfVoice f, upd_visual_style = visualStyle f,
      upd_updated_at = now\<rparr>"

text \<open>
  \<^verbatim>\<open>handleSubmit\<close> of the profile screen; \<open>now\<close> is the timestamp of the update.
  The message texts are French in the source and abbreviated here.
\<close>

definition profile_handleSubmit ::
    "string \<Rightarrow> profile_form \<Rightarrow> auth_ctx \<Rightarrow> world \<Rightarrow> profile_form \<times> auth_ctx \<times> world" where
  "profile_handleSubmit now f ctx w =
     (case ctx_company ctx of
        None \<Rightarrow> (f\<lparr>message := Some (Error, ''entreprise non trouvee'')\<rparr>, ctx, w)
      | Some c \<Rightarrow>
          if company_id c = []
          then (f\<lparr>message := Some (Error, ''entreprise non trouvee'')\<rparr>, ctx, w)
          else
            (let f1 = f\<lparr>form_loading := True, message := None\<rparr> in
             case update_company (company_id c) (form_update now f) w of
               (Inl error, w1) \<Rightarrow>
                 (f1\<lparr>message := Some (Error, ''Erreur lors de la mise a jour''),
                     form_loading := False\<rparr>, ctx, console_error error w1)
             | (Inr _, w1) \<Rightarrow>
                 (case refreshData ctx w1 of
                    (ctx', w2) \<Rightarrow>
                      (f1\<lparr>message := Some (Success, ''Profil mis a jour avec succes''),
                          form_loading := False\<rparr>, ctx', w2))))"

section \<open>The login screen\<close>

record login_form =
  login_email :: string
  login_password :: string
  rememberMe :: bool
  login_error :: string
  login_loading :: bool

text \<open>
  \<^verbatim>\<open>handleSubmit\<close> of the login screen: the code after \<^verbatim>\<open>await signIn\<close> (the
  remember-me preference and the navigation) runs only when \<^verbatim>\<open>signIn\<close> resolved.
\<close>

definition login_handleSubmit ::
    "login_form \<Rightarrow> auth_ctx \<Rightarrow> world \<Rightarrow> login_form \<times> auth_ctx \<times> world" where
  "login_handleSubmit f ctx w =
     (let f1 = f\<lparr>login_error := [], login_loading := True\<rparr> in
      case signIn (login_email f) (login_password f) ctx w of
        (Inl e, ctx', w1) \<Rightarrow>
          (f1\<lparr>login_error := (if err_message e \<noteq> [] then err_message e
                               else ''Erreur de connexion''),
              login_loading := False\<rparr>, ctx', w1)
      | (Inr _, ctx', w1) \<Rightarrow>
          (let w2 = (if rememberMe f
                     then w1\<lparr>localStorage := (localStorage w1)
                                (''rememberMe'' \<mapsto> ''true'',
                                 ''rememberedEmail'' \<mapsto> login_email f)\<rparr>
                     else w1\<lparr>localStorage := (localStorage w1)
                                (''rememberMe'' := None, ''rememberedEmail'' := None)\<rparr>)
           in (f1\<lparr>login_loading := False\<rparr>, ctx', navigate ''/dashboard'' w2)))"

section \<open>Observing one call\<close>

text \<open>The requests sent between an earlier world and a later one.\<close>

definition issued :: "world \<Rightarrow> world \<Rightarrow> call list" where
  "issued w w' = drop (length (log w)) (log w')"

section \<open>Example data\<close>

text \<open>A small backend on which the theorems below are instantiated.\<close>

definition spa_user :: user where
  "spa_user =
     \<lparr>user_id = ''u1'', user_email = ''ana@spa.example'', first_name = ''Ana'',
      last_name = ''Diaz'', user_role = ''user'', user_company_id = ''c1''\<rparr>"

definition spa_company :: company where
  "spa_company =
     \<lparr>company_id = ''c1'', company_name = ''Spa'', business_sector = ''wellness'',
      services = [js ''Massage''], target_audience = ''adults'',
      brand_colors = [''#000000'', ''#ffffff''], logo_url = None, tone_of_voice = ''warm'',
      visual_style = ''minimal''\<rparr>"

definition spa_pack :: pack where
  "spa_pack =
     \<lparr>pack_id = ''p1'', pack_company_id = ''c1'', pack_type = ''starter'',
      monthly_posts_limit = 30, posts_used = 29, price = 49, status = ''active''\<rparr>"

definition spa_post :: gen_data where
  "spa_post =
     \<lparr>image_url = ''https://img.example/1.png'', caption = ''Relax'', hashtags = [''spa'']\<rparr>"

definition spa_backend :: backend where
  "spa_backend =
     \<lparr>accounts = [(''ana@spa.example'', ''secret'', ''u1'')], session = None,
      user_tbl = [spa_user], company_tbl = [spa_company], pack_tbl = [spa_pack],
      template_tbl = [], post_tbl = [], rejects = (\<lambda>c. None),
      id_gen = (\<lambda>n. ''id'' @ replicate n CHR ''x''), id_count = 0,
      webhook = (\<lambda>r. Response True (Some spa_post))\<rparr>"

definition spa_template :: template where
  "spa_template =
     \<lparr>template_id = ''t1'', template_name = ''Promo'', category = ''promo'',
      prompt_base = ''A calm promotion'', thumbnail_url = None,
      works_best_for = [''wellness''], platforms = [''instagram'', ''facebook''],
      formats = [''story'', ''post''], is_active = True\<rparr>"

definition spa_generator :: generator where
  "spa_generator =
     \<lparr>platform = ''instagram'', format = ''story'', templates = [spa_template],
      selectedTemplate = Some spa_template, loadingTemplates = False,
      userSuggestions = ''-20%'', generating = False, generatedPost = None\<rparr>"

fun deny_pack_update :: "call \<Rightarrow> err option" where
  "deny_pack_update (UpdatePackPostsUsed _ _) = Some (BackendError ''42501'')"
| "deny_pack_update _ = None"

text \<open>
  The form holds two services; the input field holds \<open>Massage\<close> padded with a
  no-break space and a space in front and a tab and a line separator behind.
\<close>

definition spa_form :: profile_form where
  "spa_form =
     \<lparr>form_name = ''Spa'', businessSector = ''wellness'',
      form_services = [js ''Massage'', js ''Facial''], targetAudience = ''adults'',
      brandColors = [''#000000'', ''#ffffff''], logoUrl = [], toneOfVoice = ''warm'',
      visualStyle = ''minimal'', form_loading = False, message = None,
      newService = [0x00A0, 0x0020] @ js ''Massage'' @ [0x0009, 0x2028]\<rparr>"

text \<open>The pack of the company has been cancelled: the company has no active pack.\<close>

definition lapsed_backend :: backend where
  "lapsed_backend = spa_backend\<lparr>pack_tbl := [spa_pack\<lparr>status := ''cancelled''\<rparr>]\<rparr>"

definition world_of :: "backend \<Rightarrow> world" where
  "world_of b =
     \<lparr>db = b, log = [], console = [], alerts = [], navigations = [],
      localStorage = Map.empty\<rparr>"

definition signed_out :: auth_ctx where
  "signed_out =
     \<lparr>ctx_user = None, ctx_company = None, ctx_pack = None, ctx_loading = False\<rparr>"

definition spa_ctx :: auth_ctx where
  "spa_ctx =
     \<lparr>ctx_user = Some spa_user, ctx_company = Some spa_company, ctx_pack = Some spa_pack,
      ctx_loading = False\<rparr>"

text \<open>
  A second account signs up on that backend: the identifiers the backend hands out are
  \<open>''id''\<close> and then \<open>''idx''\<close>. The two policies refuse one kind of insert each.
\<close>

fun deny_company_insert :: "call \<Rightarrow> err option" where
  "deny_company_insert (InsertCompany _) = Some (BackendError ''42501'')"
| "deny_company_insert _ = None"

fun deny_user_insert :: "call \<Rightarrow> err option" where
  "deny_user_insert (InsertUser _) = Some (BackendError ''42501'')"
| "deny_user_insert _ = None"

definition bea_company :: company where
  "bea_company = (new_company ''Salon'')\<lparr>company_id := ''idx''\<rparr>"

definition bea_user :: user where
  "bea_user = new_user ''id'' ''bea@salon.example'' ''Bea'' ''Roy'' ''idx''"

definition bea_w1 :: "backend \<Rightarrow> world" where
  "bea_w1 b = snd (auth_signUp ''bea@salon.example'' ''pw'' (world_of b))"

definition bea_w2 :: "backend \<Rightarrow> world" where
  "bea_w2 b = snd (insert_company (new_company ''Salon'') (bea_w1 b))"

definition bea_w3 :: "backend \<Rightarrow> world" where
  "bea_w3 b = snd (insert_user bea_user (bea_w2 b))"

section \<open>Basic facts about requests\<close>

lemma sent_simps:
  "db (sent c w) = db w" "log (sent c w) = log w @ [c]" "console (sent c w) = console w"
  "alerts (sent c w) = alerts w" "navigations (sent c w) = navigations w"
  "localStorage (sent c w) = localStorage w"
  by (simp_all add: sent_def)

lemma console_error_simps:
  "db (console_error e w) = db w" "log (console_error e w) = log w"
  "console (console_error e w) = console w @ [e]" "alerts (console_error e w) = alerts w"
  "navigations (console_error e w) = navigations w"
  "localStorage (console_error e w) = localStorage w"
  by (simp_all add: console_error_def)

lemma single_filter_Inr: "single (filter P xs) = Inr r \<Longrightarrow> P r \<and> r \<in> set xs"
proof -
  assume "single (filter P xs) = Inr r"
  then have "filter P xs = [r]"
    by (auto simp: single_def split: list.splits)
  then have "r \<in> set (filter P xs)" by simp
  then show ?thesis by simp
qed

text \<open>The load chain, written over the backend's three answers.\<close>

lemma loadUserData_unfold:
  "loadUserData userId ctx w =
     (case find_user userId (db w) of
        Inl userError \<Rightarrow>
          (ctx\<lparr>ctx_loading := False\<rparr>, console_error userError (sent (SelectUser userId) w))
      | Inr u \<Rightarrow>
          if user_company_id u = [] then
            (ctx\<lparr>ctx_user := Some u, ctx_loading := False\<rparr>, sent (SelectUser userId) w)
          else
            (case find_company (user_company_id u) (db w) of
               Inl companyError \<Rightarrow>
                 (ctx\<lparr>ctx_user := Some u, ctx_loading := False\<rparr>,
                  console_error companyError
                    (sent (SelectCompany (user_company_id u)) (sent (SelectUser userId) w)))
             | Inr c \<Rightarrow>
                 (case find_active_pack (user_company_id u) (db w) of
                    Inl packError \<Rightarrow>
                      (ctx\<lparr>ctx_user := Some u, ctx_company := Some c, ctx_loading := False\<rparr>,
                       sent (SelectActivePack (user_company_id u))
                         (sent (SelectCompany (user_company_id u)) (sent (SelectUser userId) w)))
                  | Inr p \<Rightarrow>
                      (ctx\<lparr>ctx_user := Some u, ctx_company := Some c, ctx_pack := Some p,
                           ctx_loading := False\<rparr>,
                       sent (SelectActivePack (user_company_id u))
                         (sent (SelectCompany (user_company_id u)) (sent (SelectUser userId) w))))))"
  by (simp add: loadUserData_def Let_def select_user_single_def select_company_single_def
        select_active_pack_single_def sent_simps split: sum.splits)

lemma loadUserData_db: "db (snd (loadUserData userId ctx w)) = db w"
  by (simp add: loadUserData_unfold sent_simps console_error_simps split: sum.splits)

section \<open>Sign out\<close>

text \<open>
  Claim C6. For every sign-out call the session-invalidation request is sent (it is the
  only request of the call) and User, Company and Pack are cleared from the context,
  whatever the backend answered: when the backend refuses the request the session
  stays as it was, and the three entities are cleared all the same.
\<close>

theorem signOut_clears_entities:
  "fst (signOut ctx w) = ctx\<lparr>ctx_user := None, ctx_company := None, ctx_pack := None\<rparr>
   \<and> log (snd (signOut ctx w)) = log w @ [AuthSignOut]
   \<and> session (db (snd (signOut ctx w)))
       = (case rejects (db w) AuthSignOut of Some e \<Rightarrow> session (db w) | None \<Rightarrow> None)"
  by (simp add: signOut_def auth_signOut_def Let_def sent_simps
        split: option.splits prod.splits)

lemmas ex_defs = world_of_def spa_backend_def spa_user_def spa_company_def spa_pack_def
  spa_post_def spa_template_def spa_generator_def spa_form_def lapsed_backend_def signed_out_def spa_ctx_def bea_company_def bea_user_def bea_w1_def bea_w2_def
  bea_w3_def new_company_def new_user_def

lemmas api_defs = auth_signInWithPassword_def auth_signUp_def insert_company_def
  insert_user_def sent_def Let_def find_user_def find_company_def find_active_pack_def
  single_def console_error_def

section \<open>The load chain\<close>

lemma loadUserData_ctx_db:
  "db w' = db w \<Longrightarrow> fst (loadUserData userId ctx w') = fst (loadUserData userId ctx w)"
  by (simp add: loadUserData_unfold split: sum.splits)

lemma find_user_id: "find_user uid b = Inr u \<Longrightarrow> user_id u = uid"
  by (auto simp: find_user_def split: option.splits dest: single_filter_Inr)

lemma find_company_id: "find_company cid b = Inr c \<Longrightarrow> company_id c = cid"
  by (auto simp: find_company_def split: option.splits dest: single_filter_Inr)

lemma loadUserData_twice:
  "fst (loadUserData userId (fst (loadUserData userId ctx w)) w)
     = fst (loadUserData userId ctx w)"
  by (simp add: loadUserData_unfold split: sum.splits)

lemma loadUserData_user_id:
  "ctx_user ctx = Some u \<Longrightarrow> user_id u = userId \<Longrightarrow>
   \<exists>u'. ctx_user (fst (loadUserData userId ctx w)) = Some u' \<and> user_id u' = userId"
  by (auto simp add: loadUserData_unfold split: sum.splits dest: find_user_id)

text \<open>
  A run of the load chain whose user and company lookups succeed, for a company with
  no pack row of status \<open>active\<close>, started with an empty pack field: the failed pack
  lookup is absorbed. The pack field is still empty, User and Company are populated,
  the loading flag is cleared, nothing is written to the console, and the function
  returns normally (it has no error result) after its three lookups.
\<close>

lemma loadUserData_without_active_pack:
  assumes "find_user userId (db w) = Inr u"
      and "user_company_id u \<noteq> []"
      and "find_company (user_company_id u) (db w) = Inr c"
      and "filter (\<lambda>p. pack_company_id p = company_id c \<and> status p = ''active'')
             (pack_tbl (db w)) = []"
      and "ctx_pack ctx = None"
  shows "fst (loadUserData userId ctx w)
           = ctx\<lparr>ctx_user := Some u, ctx_company := Some c, ctx_loading := False\<rparr>
       \<and> ctx_pack (fst (loadUserData userId ctx w)) = None
       \<and> console (snd (loadUserData userId ctx w)) = console w
       \<and> log (snd (loadUserData userId ctx w))
           = log w @ [SelectUser userId, SelectCompany (user_company_id u),
                      SelectActivePack (user_company_id u)]"
proof -
  from assms(3) have cid: "company_id c = user_company_id u"
    by (rule find_company_id)
  have "\<exists>e. find_active_pack (user_company_id u) (db w) = Inl e"
    using assms(4) cid by (simp add: find_active_pack_def single_def split: option.splits)
  then obtain e where "find_active_pack (user_company_id u) (db w) = Inl e" ..
  with assms show ?thesis
    by (simp add: loadUserData_unfold sent_simps)
qed

lemma loadUserData_without_active_pack_example:
  "fst (loadUserData ''u1'' signed_out (world_of (spa_backend\<lparr>pack_tbl := []\<rparr>)))
     = \<lparr>ctx_user = Some spa_user, ctx_company = Some spa_company, ctx_pack = None,
        ctx_loading = False\<rparr>
   \<and> console (snd (loadUserData ''u1'' signed_out (world_of (spa_backend\<lparr>pack_tbl := []\<rparr>))))
       = []
   \<and> log (snd (loadUserData ''u1'' signed_out (world_of (spa_backend\<lparr>pack_tbl := []\<rparr>))))
       = [SelectUser ''u1'', SelectCompany ''c1'', SelectActivePack ''c1'']"
  using loadUserData_without_active_pack
          [of "''u1''" "world_of (spa_backend\<lparr>pack_tbl := []\<rparr>)" spa_user spa_company
              signed_out]
  by (simp add: find_user_def find_company_def world_of_def spa_backend_def spa_user_def
        spa_company_def single_def signed_out_def)

text \<open>
  Claim C5 asks that, for a company without an active pack, the pack field is empty
  after every run of the load chain. A run that starts with an empty field leaves it
  empty (lemma above). A run that starts with a pack in the field does not: the failed
  lookup only skips \<^verbatim>\<open>setPack\<close>, and nothing in \<^verbatim>\<open>loadUserData\<close> clears the field.
  Here the pack that the context holds has been cancelled in the backend. The refresh
  finds no active pack, raises and logs nothing, populates User and Company, clears
  the loading flag, and leaves the cancelled pack in the context.
\<close>

theorem refreshData_keeps_stale_pack:
  "filter (\<lambda>p. pack_company_id p = ''c1'' \<and> status p = ''active'') (pack_tbl lapsed_backend)
     = []
   \<and> find_active_pack ''c1'' lapsed_backend = Inl (BackendError ''PGRST116'')
   \<and> ctx_pack spa_ctx = Some spa_pack
   \<and> ctx_pack (fst (refreshData spa_ctx (world_of lapsed_backend))) = Some spa_pack
   \<and> ctx_pack (fst (loadUserData ''u1'' spa_ctx (world_of lapsed_backend))) = Some spa_pack
   \<and> ctx_user (fst (refreshData spa_ctx (world_of lapsed_backend))) = Some spa_user
   \<and> ctx_company (fst (refreshData spa_ctx (world_of lapsed_backend))) = Some spa_company
   \<and> ctx_loading (fst (refreshData spa_ctx (world_of lapsed_backend))) = False
   \<and> console (snd (refreshData spa_ctx (world_of lapsed_backend))) = []
   \<and> log (snd (refreshData spa_ctx (world_of lapsed_backend)))
       = [SelectUser ''u1'', SelectCompany ''c1'', SelectActivePack ''c1'']"
  by (simp add: refreshData_def loadUserData_unfold ex_defs api_defs)

text \<open>
  Claim C7. Refresh is idempotent: a refresh reads the backend and leaves it as it was,
  and a second refresh right after the first yields the same context (User, Company,
  Pack and the loading flag) as the first did. With no user in the context, refresh
  changes nothing and sends nothing.
\<close>

theorem refreshData_idempotent:
  "fst (refreshData (fst (refreshData ctx w)) (snd (refreshData ctx w)))
     = fst (refreshData ctx w)
   \<and> db (snd (refreshData ctx w)) = db w
   \<and> (ctx_user ctx = None \<longrightarrow> refreshData ctx w = (ctx, w))"
proof (cases "ctx_user ctx")
  case None
  then show ?thesis by (simp add: refreshData_def)
next
  case (Some u)
  obtain u' where u': "ctx_user (fst (loadUserData (user_id u) ctx w)) = Some u'"
    "user_id u' = user_id u"
    using loadUserData_user_id [OF Some refl] by blast
  have "fst (loadUserData (user_id u) (fst (loadUserData (user_id u) ctx w))
               (snd (loadUserData (user_id u) ctx w)))
        = fst (loadUserData (user_id u) (fst (loadUserData (user_id u) ctx w)) w)"
    by (rule loadUserData_ctx_db) (rule loadUserData_db)
  then show ?thesis
    using Some u' by (simp add: refreshData_def loadUserData_twice loadUserData_db)
qed

theorem refreshData_idempotent_witness:
  "ctx_user signed_out = None
   \<and> refreshData signed_out (world_of spa_backend) = (signed_out, world_of spa_backend)"
  using refreshData_idempotent [of signed_out "world_of spa_backend"]
  by (simp add: signed_out_def)

section \<open>Sign in\<close>

lemma auth_signInWithPassword_log:
  "log (snd (auth_signInWithPassword email password w))
     = log w @ [AuthSignInWithPassword email password]"
  by (simp add: auth_signInWithPassword_def Let_def sent_simps
        split: option.splits list.splits prod.splits)

lemma loadUserData_loading: "ctx_loading (fst (loadUserData userId ctx w)) = False"
  by (simp add: loadUserData_unfold split: sum.splits)

lemma loadUserData_found:
  "find_user userId (db w) = Inr u \<Longrightarrow> user_company_id u \<noteq> [] \<Longrightarrow>
   find_company (user_company_id u) (db w) = Inr c \<Longrightarrow>
   ctx_user (fst (loadUserData userId ctx w)) = Some u
   \<and> ctx_company (fst (loadUserData userId ctx w)) = Some c
   \<and> log (snd (loadUserData userId ctx w))
       = log w @ [SelectUser userId, SelectCompany (user_company_id u),
                  SelectActivePack (user_company_id u)]"
  by (simp add: loadUserData_unfold sent_simps split: sum.splits)

text \<open>
  Claim C3, as the code has it. When the backend accepts the credentials and names the
  identity, \<^verbatim>\<open>signIn\<close> resolves with the state that the awaited load chain left, the
  loading flag cleared; when moreover the user lookup and the company lookup succeed,
  User and Company are populated in that state and the requests were sent in the order
  sign-in, user, company, pack. When the backend answers with an error, that same error
  is returned and the context is untouched. The login screen navigates only after a
  resolved sign-in, with the context that sign-in returned, and does not navigate after
  a failed one.
\<close>

theorem signIn_awaits_load_chain:
  "(auth_signInWithPassword email password w = (Inr (Some uid), w1) \<longrightarrow>
      signIn email password ctx w = (Inr (), loadUserData uid ctx w1)
      \<and> ctx_loading (fst (loadUserData uid ctx w1)) = False
      \<and> (find_user uid (db w1) = Inr u \<and> user_company_id u \<noteq> []
           \<and> find_company (user_company_id u) (db w1) = Inr c \<longrightarrow>
         ctx_user (fst (loadUserData uid ctx w1)) = Some u
         \<and> ctx_company (fst (loadUserData uid ctx w1)) = Some c
         \<and> log (snd (loadUserData uid ctx w1))
             = log w @ [AuthSignInWithPassword email password, SelectUser uid,
                        SelectCompany (user_company_id u),
                        SelectActivePack (user_company_id u)]))
   \<and> (auth_signInWithPassword email password w = (Inl e, w1) \<longrightarrow>
        signIn email password ctx w = (Inl e, ctx, w1))
   \<and> (signIn (login_email f) (login_password f) ctx w = (Inr (), ctx', w') \<longrightarrow>
        fst (snd (login_handleSubmit f ctx w)) = ctx'
        \<and> navigations (snd (snd (login_handleSubmit f ctx w)))
            = navigations w' @ [''/dashboard''])
   \<and> (signIn (login_email f) (login_password f) ctx w = (Inl e, ctx', w') \<longrightarrow>
        navigations (snd (snd (login_handleSubmit f ctx w))) = navigations w')"
proof -
  have a: "log w1 = log w @ [AuthSignInWithPassword email password]"
    if "auth_signInWithPassword email password w = (Inr (Some uid), w1)"
    using auth_signInWithPassword_log [of email password w] that by simp
  show ?thesis
    by (auto simp: signIn_def loadUserData_loading loadUserData_found a
          login_handleSubmit_def Let_def navigate_def split: prod.splits)
qed

theorem signIn_awaits_load_chain_witness:
  "signIn ''ana@spa.example'' ''secret'' signed_out (world_of spa_backend)
     = (Inr (),
        loadUserData ''u1'' signed_out
          (snd (auth_signInWithPassword ''ana@spa.example'' ''secret'' (world_of spa_backend))))
   \<and> ctx_user (fst (snd (signIn ''ana@spa.example'' ''secret'' signed_out
                            (world_of spa_backend)))) = Some spa_user
   \<and> ctx_company (fst (snd (signIn ''ana@spa.example'' ''secret'' signed_out
                               (world_of spa_backend)))) = Some spa_company
   \<and> log (snd (snd (signIn ''ana@spa.example'' ''secret'' signed_out
                       (world_of spa_backend))))
       = [AuthSignInWithPassword ''ana@spa.example'' ''secret'', SelectUser ''u1'',
          SelectCompany ''c1'', SelectActivePack ''c1'']
   \<and> fst (signIn ''ana@spa.example'' ''wrong'' signed_out (world_of spa_backend))
       = Inl (BackendError ''Invalid login credentials'')
   \<and> fst (snd (signIn ''ana@spa.example'' ''wrong'' signed_out (world_of spa_backend)))
       = signed_out"
  using signIn_awaits_load_chain
    [where email = "''ana@spa.example''" and password = "''secret''"
       and w = "world_of spa_backend" and uid = "''u1''" and ctx = signed_out
       and ?w1.0 = "snd (auth_signInWithPassword ''ana@spa.example'' ''secret''
                          (world_of spa_backend))"
       and u = spa_user and c = spa_company]
    signIn_awaits_load_chain
    [where email = "''ana@spa.example''" and password = "''wrong''"
       and w = "world_of spa_backend" and ctx = signed_out
       and e = "BackendError ''Invalid login credentials''"
       and ?w1.0 = "snd (auth_signInWithPassword ''ana@spa.example'' ''wrong''
                          (world_of spa_backend))"]
  by (simp add: ex_defs api_defs)

text \<open>
  Claim C3 as stated fails for an auth identity without a \<^verbatim>\<open>user\<close> row (what a
  sign-up leaves behind when its inserts fail): the credentials are valid, the
  sign-in resolves normally, and neither User nor Company is populated; the company
  and pack lookups are never sent.
\<close>

theorem signIn_orphan_identity_counterexample:
  "fst (auth_signInWithPassword ''ana@spa.example'' ''secret''
          (world_of (spa_backend\<lparr>user_tbl := []\<rparr>))) = Inr (Some ''u1'')
   \<and> fst (signIn ''ana@spa.example'' ''secret'' signed_out
             (world_of (spa_backend\<lparr>user_tbl := []\<rparr>))) = Inr ()
   \<and> ctx_user (fst (snd (signIn ''ana@spa.example'' ''secret'' signed_out
             (world_of (spa_backend\<lparr>user_tbl := []\<rparr>))))) = None
   \<and> ctx_company (fst (snd (signIn ''ana@spa.example'' ''secret'' signed_out
             (world_of (spa_backend\<lparr>user_tbl := []\<rparr>))))) = None
   \<and> log (snd (snd (signIn ''ana@spa.example'' ''secret'' signed_out
             (world_of (spa_backend\<lparr>user_tbl := []\<rparr>)))))
       = [AuthSignInWithPassword ''ana@spa.example'' ''secret'', SelectUser ''u1'']"
  by (simp add: signIn_def auth_signInWithPassword_def Let_def world_of_def spa_backend_def
        sent_def loadUserData_unfold find_user_def single_def signed_out_def console_error_def)

section \<open>Sign up\<close>

lemma auth_signUp_Some:
  "auth_signUp email password w = (Inr (Some uid), w1) \<Longrightarrow>
   log w1 = log w @ [AuthSignUp email password]
   \<and> rejects (db w1) = rejects (db w)
   \<and> accounts (db w1) = accounts (db w) @ [(email, password, uid)]
   \<and> user_tbl (db w1) = user_tbl (db w) \<and> company_tbl (db w1) = company_tbl (db w)"
  by (auto simp: auth_signUp_def Let_def sent_simps split: option.splits if_splits)

lemma insert_company_Inl:
  "insert_company row w = (Inl e, w') \<Longrightarrow> db w' = db w \<and> log w' = log w @ [InsertCompany row]"
  by (auto simp: insert_company_def Let_def sent_simps split: option.splits if_splits)

lemma insert_company_Some:
  "insert_company row w = (Inr (Some cd), w') \<Longrightarrow>
   log w' = log w @ [InsertCompany row]
   \<and> cd = row\<lparr>company_id := id_gen (db w) (id_count (db w))\<rparr>
   \<and> company_id cd \<notin> set (map company_id (company_tbl (db w)))
   \<and> company_tbl (db w') = company_tbl (db w) @ [cd]
   \<and> rejects (db w') = rejects (db w) \<and> accounts (db w') = accounts (db w)
   \<and> user_tbl (db w') = user_tbl (db w)"
  by (auto simp: insert_company_def Let_def sent_simps split: option.splits if_splits)

lemma insert_user_Inl:
  "insert_user row w = (Inl e, w') \<Longrightarrow> db w' = db w \<and> log w' = log w @ [InsertUser row]"
  by (auto simp: insert_user_def Let_def sent_simps split: option.splits if_splits)

lemma insert_user_Inr:
  "insert_user row w = (Inr r, w') \<Longrightarrow>
   log w' = log w @ [InsertUser row]
   \<and> user_id row \<notin> set (map user_id (user_tbl (db w)))
   \<and> user_tbl (db w') = user_tbl (db w) @ [row]
   \<and> company_tbl (db w') = company_tbl (db w)
   \<and> rejects (db w') = rejects (db w) \<and> accounts (db w') = accounts (db w)"
  by (auto simp: insert_user_def Let_def sent_simps split: option.splits if_splits)

lemma filter_fresh_key:
  "k \<notin> set (map key xs) \<Longrightarrow> key x = k \<Longrightarrow> filter (\<lambda>r. key r = k) (xs @ [x]) = [x]"
  by (induction xs) auto

text \<open>
  Claim C4. \<^verbatim>\<open>signUp\<close> creates the auth identity, then inserts the company row,
  then the user row, in that order. The company row carries the given name and empty
  profile fields, and the user row carries the new identity and the identifier of that
  company. When the company insert or the user insert fails, its error is returned,
  the context is untouched, no further request is sent, and the identity (and, for a
  failed user insert, the company row) is still stored. When all three succeed the
  result is that of the load chain, run after them; where the backend answers the two
  lookups and the company identifier is not empty, it yields exactly the inserted user
  and company.
\<close>

theorem signUp_provisioning:
  "(auth_signUp email password w = (Inl e, w1) \<longrightarrow>
      signUp email password firstName lastName companyName ctx w = (Inl e, ctx, w1))
   \<and> (auth_signUp email password w = (Inr (Some userId), w1) \<longrightarrow>
       (insert_company (new_company companyName) w1 = (Inl e, w2) \<longrightarrow>
          signUp email password firstName lastName companyName ctx w = (Inl e, ctx, w2)
          \<and> log w2 = log w @ [AuthSignUp email password,
                               InsertCompany (new_company companyName)]
          \<and> accounts (db w2) = accounts (db w) @ [(email, password, userId)])
     \<and> (insert_company (new_company companyName) w1 = (Inr (Some cd), w2) \<longrightarrow>
          company_name cd = companyName \<and> business_sector cd = [] \<and> services cd = []
          \<and> target_audience cd = [] \<and> brand_colors cd = [] \<and> tone_of_voice cd = []
          \<and> visual_style cd = [] \<and> logo_url cd = None
        \<and> (insert_user (new_user userId email firstName lastName (company_id cd)) w2
               = (Inl e, w3) \<longrightarrow>
             signUp email password firstName lastName companyName ctx w = (Inl e, ctx, w3)
             \<and> log w3 = log w @ [AuthSignUp email password,
                    InsertCompany (new_company companyName),
                    InsertUser (new_user userId email firstName lastName (company_id cd))]
             \<and> accounts (db w3) = accounts (db w) @ [(email, password, userId)]
             \<and> company_tbl (db w3) = company_tbl (db w) @ [cd])
        \<and> (insert_user (new_user userId email firstName lastName (company_id cd)) w2
               = (Inr r, w3) \<longrightarrow>
             signUp email password firstName lastName companyName ctx w
               = (Inr (), loadUserData userId ctx w3)
             \<and> (company_id cd \<noteq> [] \<and> rejects (db w) (SelectUser userId) = None
                  \<and> rejects (db w) (SelectCompany (company_id cd)) = None \<longrightarrow>
                ctx_user (fst (loadUserData userId ctx w3))
                  = Some (new_user userId email firstName lastName (company_id cd))
                \<and> ctx_company (fst (loadUserData userId ctx w3)) = Some cd
                \<and> log (snd (loadUserData userId ctx w3))
                    = log w @ [AuthSignUp email password,
                        InsertCompany (new_company companyName),
                        InsertUser (new_user userId email firstName lastName (company_id cd)),
                        SelectUser userId, SelectCompany (company_id cd),
                        SelectActivePack (company_id cd)]))))"
proof -
  have fail_a: "signUp email password firstName lastName companyName ctx w = (Inl e, ctx, w1)"
    if "auth_signUp email password w = (Inl e, w1)"
    using that by (simp add: signUp_def)
  have fail_b: "signUp email password firstName lastName companyName ctx w = (Inl e, ctx, w2)
      \<and> log w2 = log w @ [AuthSignUp email password, InsertCompany (new_company companyName)]
      \<and> accounts (db w2) = accounts (db w) @ [(email, password, userId)]"
    if a: "auth_signUp email password w = (Inr (Some userId), w1)"
      and b: "insert_company (new_company companyName) w1 = (Inl e, w2)"
    using a b auth_signUp_Some [OF a] insert_company_Inl [OF b]
    by (simp add: signUp_def)
  have shape: "company_name cd = companyName \<and> business_sector cd = [] \<and> services cd = []
      \<and> target_audience cd = [] \<and> brand_colors cd = [] \<and> tone_of_voice cd = []
      \<and> visual_style cd = [] \<and> logo_url cd = None"
    if b: "insert_company (new_company companyName) w1 = (Inr (Some cd), w2)"
    using insert_company_Some [OF b] by (simp add: new_company_def)
  have fail_c: "signUp email password firstName lastName companyName ctx w = (Inl e, ctx, w3)
      \<and> log w3 = log w @ [AuthSignUp email password, InsertCompany (new_company companyName),
             InsertUser (new_user userId email firstName lastName (company_id cd))]
      \<and> accounts (db w3) = accounts (db w) @ [(email, password, userId)]
      \<and> company_tbl (db w3) = company_tbl (db w) @ [cd]"
    if a: "auth_signUp email password w = (Inr (Some userId), w1)"
      and b: "insert_company (new_company companyName) w1 = (Inr (Some cd), w2)"
      and c: "insert_user (new_user userId email firstName lastName (company_id cd)) w2
                = (Inl e, w3)"
    using a b c auth_signUp_Some [OF a] insert_company_Some [OF b] insert_user_Inl [OF c]
    by (simp add: signUp_def)
  have ok: "signUp email password firstName lastName companyName ctx w
               = (Inr (), loadUserData userId ctx w3)"
    if a: "auth_signUp email password w = (Inr (Some userId), w1)"
      and b: "insert_company (new_company companyName) w1 = (Inr (Some cd), w2)"
      and c: "insert_user (new_user userId email firstName lastName (company_id cd)) w2
                = (Inr r, w3)"
    using a b c by (simp add: signUp_def split: prod.splits)
  have loaded: "ctx_user (fst (loadUserData userId ctx w3))
                  = Some (new_user userId email firstName lastName (company_id cd))
        \<and> ctx_company (fst (loadUserData userId ctx w3)) = Some cd
        \<and> log (snd (loadUserData userId ctx w3))
            = log w @ [AuthSignUp email password, InsertCompany (new_company companyName),
                InsertUser (new_user userId email firstName lastName (company_id cd)),
                SelectUser userId, SelectCompany (company_id cd),
                SelectActivePack (company_id cd)]"
    if a: "auth_signUp email password w = (Inr (Some userId), w1)"
      and b: "insert_company (new_company companyName) w1 = (Inr (Some cd), w2)"
      and c: "insert_user (new_user userId email firstName lastName (company_id cd)) w2
                = (Inr r, w3)"
      and d: "company_id cd \<noteq> []" "rejects (db w) (SelectUser userId) = None"
        "rejects (db w) (SelectCompany (company_id cd)) = None"
  proof -
    let ?row = "new_user userId email firstName lastName (company_id cd)"
    note A = auth_signUp_Some [OF a] and B = insert_company_Some [OF b]
      and C = insert_user_Inr [OF c]
    have rej: "rejects (db w3) = rejects (db w)" using A B C by simp
    have unin: "userId \<notin> set (map user_id (user_tbl (db w2)))"
      using C by (simp add: new_user_def)
    have utbl: "user_tbl (db w3) = user_tbl (db w2) @ [?row]"
      using C by simp
    have uid: "user_id ?row = userId" by (simp add: new_user_def)
    have "filter (\<lambda>u. user_id u = userId) (user_tbl (db w3)) = [?row]"
      unfolding utbl by (rule filter_fresh_key [OF unin uid])
    then have fu: "find_user userId (db w3) = Inr ?row"
      using rej d by (simp add: find_user_def single_def)
    have cnin: "company_id cd \<notin> set (map company_id (company_tbl (db w1)))"
      using B by blast
    have ctbl: "company_tbl (db w3) = company_tbl (db w1) @ [cd]"
      using B C by simp
    have "filter (\<lambda>c. company_id c = company_id cd) (company_tbl (db w3)) = [cd]"
      unfolding ctbl by (rule filter_fresh_key [OF cnin refl])
    then have fc: "find_company (company_id cd) (db w3) = Inr cd"
      using rej d by (simp add: find_company_def single_def)
    have lg: "log w3 = log w @ [AuthSignUp email password,
        InsertCompany (new_company companyName), InsertUser ?row]"
      using A B C by simp
    have uc: "user_company_id ?row = company_id cd" by (simp add: new_user_def)
    show ?thesis
      using fu fc d(1) lg uc
      by (simp add: loadUserData_unfold sent_simps split: sum.splits)
  qed
  show ?thesis
    using fail_a fail_b shape fail_c ok loaded by blast
qed


theorem signUp_provisioning_witness:
  "auth_signUp ''bea@salon.example'' ''pw'' (world_of spa_backend)
     = (Inr (Some ''id''), bea_w1 spa_backend)
   \<and> insert_company (new_company ''Salon'') (bea_w1 spa_backend)
       = (Inr (Some bea_company), bea_w2 spa_backend)
   \<and> insert_user bea_user (bea_w2 spa_backend) = (Inr bea_user, bea_w3 spa_backend)
   \<and> fst (signUp ''bea@salon.example'' ''pw'' ''Bea'' ''Roy'' ''Salon'' signed_out
             (world_of spa_backend)) = Inr ()
   \<and> ctx_user (fst (snd (signUp ''bea@salon.example'' ''pw'' ''Bea'' ''Roy'' ''Salon''
             signed_out (world_of spa_backend)))) = Some bea_user
   \<and> ctx_company (fst (snd (signUp ''bea@salon.example'' ''pw'' ''Bea'' ''Roy'' ''Salon''
             signed_out (world_of spa_backend)))) = Some bea_company
   \<and> signUp ''bea@salon.example'' ''pw'' ''Bea'' ''Roy'' ''Salon'' signed_out
         (world_of (spa_backend\<lparr>rejects := deny_company_insert\<rparr>))
       = (Inl (BackendError ''42501''), signed_out,
          bea_w2 (spa_backend\<lparr>rejects := deny_company_insert\<rparr>))
   \<and> accounts (db (bea_w2 (spa_backend\<lparr>rejects := deny_company_insert\<rparr>)))
       = [(''ana@spa.example'', ''secret'', ''u1''), (''bea@salon.example'', ''pw'', ''id'')]
   \<and> log (bea_w2 (spa_backend\<lparr>rejects := deny_company_insert\<rparr>))
       = [AuthSignUp ''bea@salon.example'' ''pw'', InsertCompany (new_company ''Salon'')]
   \<and> signUp ''bea@salon.example'' ''pw'' ''Bea'' ''Roy'' ''Salon'' signed_out
         (world_of (spa_backend\<lparr>rejects := deny_user_insert\<rparr>))
       = (Inl (BackendError ''42501''), signed_out,
          bea_w3 (spa_backend\<lparr>rejects := deny_user_insert\<rparr>))
   \<and> accounts (db (bea_w3 (spa_backend\<lparr>rejects := deny_user_insert\<rparr>)))
       = [(''ana@spa.example'', ''secret'', ''u1''), (''bea@salon.example'', ''pw'', ''id'')]
   \<and> company_tbl (db (bea_w3 (spa_backend\<lparr>rejects := deny_user_insert\<rparr>)))
       = [spa_company, bea_company]
   \<and> log (bea_w3 (spa_backend\<lparr>rejects := deny_user_insert\<rparr>))
       = [AuthSignUp ''bea@salon.example'' ''pw'', InsertCompany (new_company ''Salon''),
          InsertUser bea_user]"
  using signUp_provisioning
    [where email = "''bea@salon.example''" and password = "''pw''" and firstName = "''Bea''"
       and lastName = "''Roy''" and companyName = "''Salon''" and ctx = signed_out
       and w = "world_of spa_backend" and userId = "''id''" and ?w1.0 = "bea_w1 spa_backend"
       and cd = bea_company and ?w2.0 = "bea_w2 spa_backend" and r = bea_user
       and ?w3.0 = "bea_w3 spa_backend"]
    signUp_provisioning
    [where email = "''bea@salon.example''" and password = "''pw''" and firstName = "''Bea''"
       and lastName = "''Roy''" and companyName = "''Salon''" and ctx = signed_out
       and w = "world_of (spa_backend\<lparr>rejects := deny_company_insert\<rparr>)"
       and userId = "''id''"
       and ?w1.0 = "bea_w1 (spa_backend\<lparr>rejects := deny_company_insert\<rparr>)"
       and e = "BackendError ''42501''"
       and ?w2.0 = "bea_w2 (spa_backend\<lparr>rejects := deny_company_insert\<rparr>)"]
    signUp_provisioning
    [where email = "''bea@salon.example''" and password = "''pw''" and firstName = "''Bea''"
       and lastName = "''Roy''" and companyName = "''Salon''" and ctx = signed_out
       and w = "world_of (spa_backend\<lparr>rejects := deny_user_insert\<rparr>)"
       and userId = "''id''"
       and ?w1.0 = "bea_w1 (spa_backend\<lparr>rejects := deny_user_insert\<rparr>)"
       and cd = bea_company
       and ?w2.0 = "bea_w2 (spa_backend\<lparr>rejects := deny_user_insert\<rparr>)"
       and e = "BackendError ''42501''"
       and ?w3.0 = "bea_w3 (spa_backend\<lparr>rejects := deny_user_insert\<rparr>)"]
  by (simp add: ex_defs api_defs)

section \<open>Post generation and the quota\<close>

lemma show_alert_simps:
  "db (show_alert a w) = db w" "log (show_alert a w) = log w"
  "console (show_alert a w) = console w" "alerts (show_alert a w) = alerts w @ [a]"
  by (simp_all add: show_alert_def)

lemma issued_simps:
  "issued w w = []" "issued w (show_alert a w') = issued w w'"
  "issued w (console_error e w') = issued w w'"
  by (simp_all add: issued_def show_alert_simps console_error_simps)

lemma issued_sent:
  "length (log w) \<le> length (log w') \<Longrightarrow> issued w (sent c w') = issued w w' @ [c]"
  by (simp add: issued_def sent_simps)

lemma insert_generated_post_cases:
  "insert_generated_post row w =
     (case rejects (db w) (InsertGeneratedPost row) of
        Some e \<Rightarrow> (Inl e, sent (InsertGeneratedPost row) w)
      | None \<Rightarrow> (Inr (), (sent (InsertGeneratedPost row) w)
                   \<lparr>db := (db w)\<lparr>post_tbl := post_tbl (db w) @ [row]\<rparr>\<rparr>))"
  by (simp add: insert_generated_post_def Let_def split: option.splits)

lemma handleGenerate_rejected:
  "ctx_pack ctx = Some p \<Longrightarrow> posts_used p \<ge> monthly_posts_limit p \<Longrightarrow>
   fst (handleGenerate now ctx g w) = g
   \<and> db (snd (handleGenerate now ctx g w)) = db w
   \<and> issued w (snd (handleGenerate now ctx g w)) = []
   \<and> (ctx_company ctx = Some c \<and> company_id c \<noteq> [] \<and> selectedTemplate g = Some t \<longrightarrow>
        snd (handleGenerate now ctx g w) = show_alert LimitReachedAlert w)"
  by (simp add: handleGenerate_def quota_reached_def show_alert_simps issued_simps
        split: option.splits)

lemma handleGenerate_first_request:
  "ctx_company ctx = Some c \<Longrightarrow> company_id c \<noteq> [] \<Longrightarrow> selectedTemplate g = Some t \<Longrightarrow>
   \<not> quota_reached ctx \<Longrightarrow>
   \<exists>rest. issued w (snd (handleGenerate now ctx g w))
            = PostWebhook (webhook_body c t g) # rest"
  by (auto simp: handleGenerate_def quota_reached_def post_webhook_def Let_def
        generate_caught_def show_alert_simps issued_def
        console_error_simps sent_simps insert_generated_post_cases update_pack_posts_used_def
        split: webhook_result.splits option.splits)

lemma handleGenerate_success:
  "ctx_company ctx = Some c \<Longrightarrow> company_id c \<noteq> [] \<Longrightarrow> selectedTemplate g = Some t \<Longrightarrow>
   \<not> quota_reached ctx \<Longrightarrow>
   webhook (db w) (webhook_body c t g) = Response True (Some d) \<Longrightarrow>
   rejects (db w) (InsertGeneratedPost (post_row now c t g d)) = None \<Longrightarrow>
   generatedPost (fst (handleGenerate now ctx g w)) = Some d
   \<and> generating (fst (handleGenerate now ctx g w)) = False
   \<and> alerts (snd (handleGenerate now ctx g w)) = alerts w
   \<and> post_tbl (db (snd (handleGenerate now ctx g w)))
       = post_tbl (db w) @ [post_row now c t g d]
   \<and> issued w (snd (handleGenerate now ctx g w))
       = [PostWebhook (webhook_body c t g), InsertGeneratedPost (post_row now c t g d)]
         @ (case ctx_pack ctx of
              Some p \<Rightarrow> [UpdatePackPostsUsed (pack_id p) (posts_used p + 1)]
            | None \<Rightarrow> [])
   \<and> pack_tbl (db (snd (handleGenerate now ctx g w)))
       = (case ctx_pack ctx of
            None \<Rightarrow> pack_tbl (db w)
          | Some p \<Rightarrow>
              (case rejects (db w) (UpdatePackPostsUsed (pack_id p) (posts_used p + 1)) of
                 Some e \<Rightarrow> pack_tbl (db w)
               | None \<Rightarrow> map (\<lambda>r. if pack_id r = pack_id p
                                    then r\<lparr>posts_used := posts_used p + 1\<rparr> else r)
                            (pack_tbl (db w))))"
  by (simp add: handleGenerate_def quota_reached_def post_webhook_def Let_def sent_simps
        insert_generated_post_cases update_pack_posts_used_def issued_def
        split: option.splits)

lemmas gen_defs = handleGenerate_def quota_reached_def post_webhook_def webhook_body_def
  post_row_def insert_generated_post_def update_pack_posts_used_def generate_caught_def
  show_alert_def issued_def

text \<open>
  Claim C1. With a pack in the context whose \<open>posts_used\<close> has reached
  \<open>monthly_posts_limit\<close>, \<^verbatim>\<open>handleGenerate\<close> sends no request, leaves the backend
  and the component state as they were, and (for an attempt with a company and a
  selected template) only shows the limit alert. With \<open>posts_used\<close> one below the
  limit, such an attempt proceeds: its first request is the webhook call, and when the
  webhook and the insert succeed the requests are webhook, insert, and the counter
  update carrying exactly \<open>monthly_posts_limit\<close>, the cached value plus one, which the
  backend stores in the pack row when it accepts the update.
\<close>

theorem handleGenerate_quota_boundary:
  "(ctx_pack ctx = Some p \<and> posts_used p \<ge> monthly_posts_limit p \<longrightarrow>
      fst (handleGenerate now ctx g w) = g
      \<and> db (snd (handleGenerate now ctx g w)) = db w
      \<and> issued w (snd (handleGenerate now ctx g w)) = []
      \<and> (ctx_company ctx = Some c \<and> company_id c \<noteq> [] \<and> selectedTemplate g = Some t \<longrightarrow>
           snd (handleGenerate now ctx g w) = show_alert LimitReachedAlert w))
   \<and> (ctx_pack ctx = Some p \<and> posts_used p = monthly_posts_limit p - 1
        \<and> ctx_company ctx = Some c \<and> company_id c \<noteq> [] \<and> selectedTemplate g = Some t \<longrightarrow>
      (\<exists>rest. issued w (snd (handleGenerate now ctx g w))
                = PostWebhook (webhook_body c t g) # rest)
      \<and> (webhook (db w) (webhook_body c t g) = Response True (Some d)
           \<and> rejects (db w) (InsertGeneratedPost (post_row now c t g d)) = None \<longrightarrow>
         issued w (snd (handleGenerate now ctx g w))
           = [PostWebhook (webhook_body c t g),
              InsertGeneratedPost (post_row now c t g d),
              UpdatePackPostsUsed (pack_id p) (monthly_posts_limit p)]
         \<and> (rejects (db w) (UpdatePackPostsUsed (pack_id p) (monthly_posts_limit p)) = None
              \<longrightarrow> pack_tbl (db (snd (handleGenerate now ctx g w)))
                    = map (\<lambda>r. if pack_id r = pack_id p
                               then r\<lparr>posts_used := monthly_posts_limit p\<rparr> else r)
                        (pack_tbl (db w)))))"
proof -
  have below: "\<not> quota_reached ctx"
    if "ctx_pack ctx = Some p" "posts_used p = monthly_posts_limit p - 1"
    using that by (simp add: quota_reached_def)
  have plus: "posts_used p + 1 = monthly_posts_limit p"
    if "posts_used p = monthly_posts_limit p - 1"
    using that by simp
  show ?thesis
    using handleGenerate_rejected [of ctx p now g w c t]
      handleGenerate_first_request [of ctx c g t w now]
      handleGenerate_success [of ctx c g t w d now] below plus
    by (auto split: option.splits)
qed

theorem handleGenerate_quota_boundary_witness:
  "snd (handleGenerate ''2026-01-05'' (spa_ctx\<lparr>ctx_pack := Some (spa_pack\<lparr>posts_used := 30\<rparr>)\<rparr>)
          spa_generator (world_of spa_backend))
     = show_alert LimitReachedAlert (world_of spa_backend)
   \<and> issued (world_of spa_backend)
        (snd (handleGenerate ''2026-01-05'' spa_ctx spa_generator (world_of spa_backend)))
       = [PostWebhook (webhook_body spa_company spa_template spa_generator),
          InsertGeneratedPost
            (post_row ''2026-01-05'' spa_company spa_template spa_generator spa_post),
          UpdatePackPostsUsed ''p1'' 30]
   \<and> pack_tbl (db (snd (handleGenerate ''2026-01-05'' spa_ctx spa_generator
                          (world_of spa_backend))))
       = [spa_pack\<lparr>posts_used := 30\<rparr>]"
  using handleGenerate_quota_boundary
    [where ctx = "spa_ctx\<lparr>ctx_pack := Some (spa_pack\<lparr>posts_used := 30\<rparr>)\<rparr>"
       and p = "spa_pack\<lparr>posts_used := 30\<rparr>" and now = "''2026-01-05''"
       and g = spa_generator and w = "world_of spa_backend" and c = spa_company
       and t = spa_template]
    handleGenerate_quota_boundary
    [where ctx = spa_ctx and p = spa_pack and now = "''2026-01-05''"
       and g = spa_generator and w = "world_of spa_backend" and c = spa_company
       and t = spa_template and d = spa_post]
  by (simp add: ex_defs)

text \<open>
  Claim C10. With no pack in the context, an attempt with a company and a selected
  template is never stopped by a quota test: the webhook is always called, no counter
  update is ever sent and the pack table is untouched; when the webhook and the insert
  succeed, the requests are exactly webhook and insert, the row is stored and the post
  is shown.
\<close>

theorem handleGenerate_without_pack:
  "ctx_pack ctx = None \<and> ctx_company ctx = Some c \<and> company_id c \<noteq> []
     \<and> selectedTemplate g = Some t \<longrightarrow>
   (\<exists>rest. issued w (snd (handleGenerate now ctx g w))
             = PostWebhook (webhook_body c t g) # rest)
   \<and> (\<forall>pid n. UpdatePackPostsUsed pid n \<notin> set (issued w (snd (handleGenerate now ctx g w))))
   \<and> pack_tbl (db (snd (handleGenerate now ctx g w))) = pack_tbl (db w)
   \<and> (webhook (db w) (webhook_body c t g) = Response True (Some d)
        \<and> rejects (db w) (InsertGeneratedPost (post_row now c t g d)) = None \<longrightarrow>
      issued w (snd (handleGenerate now ctx g w))
        = [PostWebhook (webhook_body c t g), InsertGeneratedPost (post_row now c t g d)]
      \<and> post_tbl (db (snd (handleGenerate now ctx g w)))
          = post_tbl (db w) @ [post_row now c t g d]
      \<and> generatedPost (fst (handleGenerate now ctx g w)) = Some d
      \<and> alerts (snd (handleGenerate now ctx g w)) = alerts w)"
proof (intro impI, elim conjE)
  assume a: "ctx_pack ctx = None" "ctx_company ctx = Some c" "company_id c \<noteq> []"
    "selectedTemplate g = Some t"
  then have nq: "\<not> quota_reached ctx" by (simp add: quota_reached_def)
  have no_update: "\<forall>pid n. UpdatePackPostsUsed pid n
      \<notin> set (issued w (snd (handleGenerate now ctx g w)))"
    using a
    by (auto simp: handleGenerate_def post_webhook_def Let_def generate_caught_def
          show_alert_simps issued_def console_error_simps sent_simps
          insert_generated_post_cases split: webhook_result.splits option.splits)
  have same_packs: "pack_tbl (db (snd (handleGenerate now ctx g w))) = pack_tbl (db w)"
    using a
    by (auto simp: handleGenerate_def post_webhook_def Let_def generate_caught_def
          show_alert_simps console_error_simps sent_simps
          insert_generated_post_cases split: webhook_result.splits option.splits)
  show "(\<exists>rest. issued w (snd (handleGenerate now ctx g w))
             = PostWebhook (webhook_body c t g) # rest)
   \<and> (\<forall>pid n. UpdatePackPostsUsed pid n \<notin> set (issued w (snd (handleGenerate now ctx g w))))
   \<and> pack_tbl (db (snd (handleGenerate now ctx g w))) = pack_tbl (db w)
   \<and> (webhook (db w) (webhook_body c t g) = Response True (Some d)
        \<and> rejects (db w) (InsertGeneratedPost (post_row now c t g d)) = None \<longrightarrow>
      issued w (snd (handleGenerate now ctx g w))
        = [PostWebhook (webhook_body c t g), InsertGeneratedPost (post_row now c t g d)]
      \<and> post_tbl (db (snd (handleGenerate now ctx g w)))
          = post_tbl (db w) @ [post_row now c t g d]
      \<and> generatedPost (fst (handleGenerate now ctx g w)) = Some d
      \<and> alerts (snd (handleGenerate now ctx g w)) = alerts w)"
    using handleGenerate_first_request [OF a(2,3,4) nq, of w now]
      handleGenerate_success [OF a(2,3,4) nq, of w d now] no_update same_packs a(1)
    by simp
qed


theorem handleGenerate_without_pack_witness:
  "issued (world_of spa_backend)
     (snd (handleGenerate ''2026-01-05'' (spa_ctx\<lparr>ctx_pack := None\<rparr>) spa_generator
             (world_of spa_backend)))
     = [PostWebhook (webhook_body spa_company spa_template spa_generator),
        InsertGeneratedPost
          (post_row ''2026-01-05'' spa_company spa_template spa_generator spa_post)]
   \<and> post_tbl (db (snd (handleGenerate ''2026-01-05'' (spa_ctx\<lparr>ctx_pack := None\<rparr>)
                          spa_generator (world_of spa_backend))))
       = [post_row ''2026-01-05'' spa_company spa_template spa_generator spa_post]
   \<and> pack_tbl (db (snd (handleGenerate ''2026-01-05'' (spa_ctx\<lparr>ctx_pack := None\<rparr>)
                          spa_generator (world_of spa_backend))))
       = [spa_pack]
   \<and> generatedPost (fst (handleGenerate ''2026-01-05'' (spa_ctx\<lparr>ctx_pack := None\<rparr>)
                            spa_generator (world_of spa_backend))) = Some spa_post"
  using handleGenerate_without_pack
    [where ctx = "spa_ctx\<lparr>ctx_pack := None\<rparr>" and now = "''2026-01-05''"
       and g = spa_generator and w = "world_of spa_backend" and c = spa_company
       and t = spa_template and d = spa_post]
  by (simp add: ex_defs)

text \<open>
  A failure of the webhook call or of the insert reaches the \<^verbatim>\<open>catch\<close> block: the
  generic alert is shown, no post is displayed, and no request follows the failed one,
  so nothing is rolled back.
\<close>

lemma handleGenerate_failure_notice:
  assumes "ctx_company ctx = Some c" "company_id c \<noteq> []" "selectedTemplate g = Some t"
    "\<not> quota_reached ctx"
    and "(\<forall>d. webhook (db w) (webhook_body c t g) = Response True (Some d) \<longrightarrow>
            rejects (db w) (InsertGeneratedPost (post_row now c t g d)) \<noteq> None)"
  shows "alerts (snd (handleGenerate now ctx g w)) = alerts w @ [GenerationErrorAlert]
       \<and> generatedPost (fst (handleGenerate now ctx g w)) = generatedPost g
       \<and> generating (fst (handleGenerate now ctx g w)) = False
       \<and> db (snd (handleGenerate now ctx g w)) = db w
       \<and> (issued w (snd (handleGenerate now ctx g w)) = [PostWebhook (webhook_body c t g)]
          \<or> (\<exists>d. issued w (snd (handleGenerate now ctx g w))
                   = [PostWebhook (webhook_body c t g),
                      InsertGeneratedPost (post_row now c t g d)]))"
  using assms
  by (auto simp: handleGenerate_def post_webhook_def Let_def generate_caught_def
        show_alert_simps issued_def console_error_simps sent_simps
        insert_generated_post_cases split: webhook_result.splits option.splits)

text \<open>
  Claim C2 asks for the generic failure notice after a failure of the webhook call, of
  the insert, or of the counter update. The first two give it (lemma above). The
  counter update does not: its returned error is never inspected. Here the backend
  refuses the update of the pack of a company at 29 of 30 posts: no alert is shown and
  nothing is written to the console, the post is displayed as a success, the inserted
  row stays in place, and \<open>posts_used\<close> is still 29.
\<close>

theorem handleGenerate_update_refused_silently:
  "alerts (snd (handleGenerate ''2026-01-05'' spa_ctx spa_generator
                  (world_of (spa_backend\<lparr>rejects := deny_pack_update\<rparr>)))) = []
   \<and> console (snd (handleGenerate ''2026-01-05'' spa_ctx spa_generator
                  (world_of (spa_backend\<lparr>rejects := deny_pack_update\<rparr>)))) = []
   \<and> generatedPost (fst (handleGenerate ''2026-01-05'' spa_ctx spa_generator
                  (world_of (spa_backend\<lparr>rejects := deny_pack_update\<rparr>)))) = Some spa_post
   \<and> issued (world_of (spa_backend\<lparr>rejects := deny_pack_update\<rparr>))
        (snd (handleGenerate ''2026-01-05'' spa_ctx spa_generator
                  (world_of (spa_backend\<lparr>rejects := deny_pack_update\<rparr>))))
       = [PostWebhook (webhook_body spa_company spa_template spa_generator),
          InsertGeneratedPost
            (post_row ''2026-01-05'' spa_company spa_template spa_generator spa_post),
          UpdatePackPostsUsed ''p1'' 30]
   \<and> fst (update_pack_posts_used ''p1'' 30
             (world_of (spa_backend\<lparr>rejects := deny_pack_update\<rparr>)))
       = Inl (BackendError ''42501'')
   \<and> post_tbl (db (snd (handleGenerate ''2026-01-05'' spa_ctx spa_generator
                  (world_of (spa_backend\<lparr>rejects := deny_pack_update\<rparr>)))))
       = [post_row ''2026-01-05'' spa_company spa_template spa_generator spa_post]
   \<and> map posts_used (pack_tbl (db (snd (handleGenerate ''2026-01-05'' spa_ctx spa_generator
                  (world_of (spa_backend\<lparr>rejects := deny_pack_update\<rparr>)))))) = [29]"
  by (simp add: ex_defs gen_defs sent_def Let_def)

section \<open>Template selection\<close>

text \<open>
  Claim C8, as the code has it. When the query is answered, the list of step 2 is
  exactly the stored templates that are active and whose \<open>platforms\<close> contain the
  chosen platform and whose \<open>formats\<close> contain the chosen format, in stored order;
  when the query fails the list is empty. One request is sent either way.
\<close>

theorem loadTemplates_lists_active_matches:
  "(rejects (db w) (SelectTemplates (platform g) (format g)) = None \<longrightarrow>
      templates (fst (loadTemplates g w))
        = filter (\<lambda>t. is_active t \<and> platform g \<in> set (platforms t)
                       \<and> format g \<in> set (formats t))
            (template_tbl (db w)))
   \<and> (rejects (db w) (SelectTemplates (platform g) (format g)) = Some e \<longrightarrow>
        templates (fst (loadTemplates g w)) = [])
   \<and> issued w (snd (loadTemplates g w)) = [SelectTemplates (platform g) (format g)]
   \<and> loadingTemplates (fst (loadTemplates g w)) = False"
  by (simp add: loadTemplates_def select_templates_def find_templates_def Let_def issued_def
        sent_simps console_error_simps split: option.splits)

theorem loadTemplates_lists_active_matches_witness:
  "templates (fst (loadTemplates spa_generator
      (world_of (spa_backend\<lparr>template_tbl :=
         [spa_template, spa_template\<lparr>template_id := ''t2'', platforms := [''linkedin'']\<rparr>,
          spa_template\<lparr>template_id := ''t3'', formats := [''carousel'']\<rparr>,
          spa_template\<lparr>template_id := ''t4'', is_active := False\<rparr>]\<rparr>))))
     = [spa_template]
   \<and> templates (fst (loadTemplates spa_generator
         (world_of (spa_backend\<lparr>template_tbl := [spa_template],
            rejects := (\<lambda>c. Some (BackendError ''503''))\<rparr>)))) = []"
  using loadTemplates_lists_active_matches
    [where g = spa_generator and w = "world_of (spa_backend\<lparr>template_tbl :=
         [spa_template, spa_template\<lparr>template_id := ''t2'', platforms := [''linkedin'']\<rparr>,
          spa_template\<lparr>template_id := ''t3'', formats := [''carousel'']\<rparr>,
          spa_template\<lparr>template_id := ''t4'', is_active := False\<rparr>]\<rparr>)"]
    loadTemplates_lists_active_matches
    [where g = spa_generator and w = "world_of (spa_backend\<lparr>template_tbl := [spa_template],
            rejects := (\<lambda>c. Some (BackendError ''503''))\<rparr>)" and e = "BackendError ''503''"]
  by (simp add: ex_defs)

text \<open>
  Claim C8 as stated fails for a template that carries both tags and is not active:
  with \<open>instagram\<close> and \<open>story\<close> chosen it is stored, tagged with both, and not
  listed.
\<close>

theorem loadTemplates_inactive_counterexample:
  "''instagram'' \<in> set (platforms (spa_template\<lparr>is_active := False\<rparr>))
   \<and> ''story'' \<in> set (formats (spa_template\<lparr>is_active := False\<rparr>))
   \<and> platform spa_generator = ''instagram'' \<and> format spa_generator = ''story''
   \<and> spa_template\<lparr>is_active := False\<rparr>
       \<in> set (template_tbl (db (world_of
                (spa_backend\<lparr>template_tbl := [spa_template\<lparr>is_active := False\<rparr>]\<rparr>))))
   \<and> fst (select_templates ''instagram'' ''story''
            (world_of (spa_backend\<lparr>template_tbl := [spa_template\<lparr>is_active := False\<rparr>]\<rparr>)))
       = Inr (Some [])
   \<and> templates (fst (loadTemplates spa_generator
        (world_of (spa_backend\<lparr>template_tbl := [spa_template\<lparr>is_active := False\<rparr>]\<rparr>))))
       = []"
  by (simp add: loadTemplates_def select_templates_def find_templates_def Let_def ex_defs)

section \<open>The services of the profile\<close>

lemma filter_map_update_key:
  assumes "\<And>r. key (upd r) = key r"
  shows "filter (\<lambda>r. key r = k) (map (\<lambda>r. if key r = k then upd r else r) xs)
           = map upd (filter (\<lambda>r. key r = k) xs)"
  using assms by (induction xs) auto

lemma apply_company_update_id: "company_id (apply_company_update u c) = company_id c"
  by (simp add: apply_company_update_def)

lemma single_map: "single xs = Inr r \<Longrightarrow> single (map f xs) = Inr (f r)"
  by (auto simp: single_def split: list.splits)

lemma update_company_accepted:
  "rejects (db w) (UpdateCompany cid u) = None \<Longrightarrow>
   fst (update_company cid u w) = Inr ()
   \<and> log (snd (update_company cid u w)) = log w @ [UpdateCompany cid u]
   \<and> rejects (db (snd (update_company cid u w))) = rejects (db w)
   \<and> user_tbl (db (snd (update_company cid u w))) = user_tbl (db w)
   \<and> pack_tbl (db (snd (update_company cid u w))) = pack_tbl (db w)
   \<and> company_tbl (db (snd (update_company cid u w)))
       = map (\<lambda>r. if company_id r = cid then apply_company_update u r else r)
           (company_tbl (db w))"
  by (simp add: update_company_def Let_def sent_simps)

lemma find_company_after_update:
  assumes "rejects (db w) (UpdateCompany cid u) = None"
      and "find_company cid (db w) = Inr c0"
  shows "find_company cid (db (snd (update_company cid u w)))
           = Inr (apply_company_update u c0)"
proof -
  note U = update_company_accepted [OF assms(1)]
  from assms(2) have rej: "rejects (db w) (SelectCompany cid) = None"
    and one: "single (filter (\<lambda>c. company_id c = cid) (company_tbl (db w))) = Inr c0"
    by (auto simp: find_company_def split: option.splits)
  have "filter (\<lambda>c. company_id c = cid) (company_tbl (db (snd (update_company cid u w))))
          = map (apply_company_update u) (filter (\<lambda>c. company_id c = cid) (company_tbl (db w)))"
    using U filter_map_update_key [of company_id "apply_company_update u" cid]
    by (simp add: apply_company_update_id)
  then show ?thesis
    using U rej single_map [OF one, of "apply_company_update u"]
    by (simp add: find_company_def)
qed

lemma find_user_after_update:
  "rejects (db w) (UpdateCompany cid u) = None \<Longrightarrow>
   find_user uid (db (snd (update_company cid u w))) = find_user uid (db w)"
  using update_company_accepted [of w cid u] by (simp add: find_user_def split: option.splits)

lemma trim_empty_iff: "trim s = [] \<longleftrightarrow> (\<forall>u\<in>set s. is_space u)"
proof (cases "dropWhile is_space s")
  case Nil
  then have "\<forall>u\<in>set s. is_space u" by simp
  moreover have "trim s = []" unfolding trim_def Nil by simp
  ultimately show ?thesis by simp
next
  case (Cons y ys)
  then have "\<not> is_space y"
    using hd_dropWhile [of is_space s] by simp
  moreover have "y \<in> set (rev (dropWhile is_space s))"
    using Cons by simp
  ultimately have "dropWhile is_space (rev (dropWhile is_space s)) \<noteq> []"
    unfolding dropWhile_eq_Nil_conv by blast
  moreover have "\<not> (\<forall>u\<in>set s. is_space u)"
    using Cons dropWhile_eq_Nil_conv [of is_space s] by simp
  ultimately show ?thesis by (auto simp: trim_def)
qed

text \<open>
  Claim C9. Adding and removing a service keep a duplicate-free list duplicate-free;
  adding a service whose trimmed name is empty (the input is empty or white space
  only, by JavaScript's notion of white space) or already in the list changes nothing;
  and a profile save that the backend accepts, followed by the refresh it triggers,
  leaves in the context (and in the backend) the company with exactly the services of
  the form, in the same order, which the effect of the screen then copies back into
  the form.
\<close>

theorem services_distinct_and_round_trip:
  "(distinct (form_services f) \<longrightarrow>
      distinct (form_services (handleAddService f))
      \<and> distinct (form_services (handleRemoveService s f)))
   \<and> (trim (newService f) = [] \<or> trim (newService f) \<in> set (form_services f) \<longrightarrow>
        handleAddService f = f)
   \<and> ((\<forall>u\<in>set (newService f). is_space u) \<longrightarrow> handleAddService f = f)
   \<and> (ctx_user ctx = Some u \<and> ctx_company ctx = Some c \<and> company_id c \<noteq> []
        \<and> find_user (user_id u) (db w) = Inr u' \<and> user_company_id u' = company_id c
        \<and> find_company (company_id c) (db w) = Inr c0
        \<and> rejects (db w) (UpdateCompany (company_id c) (form_update now f)) = None \<longrightarrow>
      ctx_company (fst (snd (profile_handleSubmit now f ctx w)))
        = Some (apply_company_update (form_update now f) c0)
      \<and> services (apply_company_update (form_update now f) c0) = form_services f
      \<and> find_company (company_id c) (db (snd (snd (profile_handleSubmit now f ctx w))))
          = Inr (apply_company_update (form_update now f) c0)
      \<and> form_services (company_effect (fst (snd (profile_handleSubmit now f ctx w))) f')
          = form_services f)"
proof -
  have add: "distinct (form_services (handleAddService f))" if "distinct (form_services f)"
    using that by (simp add: handleAddService_def)
  have rem: "distinct (form_services (handleRemoveService s f))"
    if "distinct (form_services f)"
    using that by (simp add: handleRemoveService_def)
  have same: "handleAddService f = f"
    if "trim (newService f) = [] \<or> trim (newService f) \<in> set (form_services f)"
    using that by (auto simp: handleAddService_def)
  have blank: "handleAddService f = f" if "\<forall>u\<in>set (newService f). is_space u"
    using that trim_empty_iff [of "newService f"] by (simp add: handleAddService_def)
  have trip: "ctx_company (fst (snd (profile_handleSubmit now f ctx w)))
        = Some (apply_company_update (form_update now f) c0)
      \<and> services (apply_company_update (form_update now f) c0) = form_services f
      \<and> find_company (company_id c) (db (snd (snd (profile_handleSubmit now f ctx w))))
          = Inr (apply_company_update (form_update now f) c0)
      \<and> form_services (company_effect (fst (snd (profile_handleSubmit now f ctx w))) f')
          = form_services f"
    if h: "ctx_user ctx = Some u" "ctx_company ctx = Some c" "company_id c \<noteq> []"
      "find_user (user_id u) (db w) = Inr u'" "user_company_id u' = company_id c"
      "find_company (company_id c) (db w) = Inr c0"
      "rejects (db w) (UpdateCompany (company_id c) (form_update now f)) = None"
  proof -
    let ?upd = "form_update now f"
    let ?w1 = "snd (update_company (company_id c) ?upd w)"
    have ok: "fst (update_company (company_id c) ?upd w) = Inr ()"
      using update_company_accepted [OF h(7)] by simp
    have fu: "find_user (user_id u) (db ?w1) = Inr u'"
      using find_user_after_update [OF h(7)] h(4) by simp
    have fc: "find_company (company_id c) (db ?w1) = Inr (apply_company_update ?upd c0)"
      by (rule find_company_after_update [OF h(7) h(6)])
    have sub: "profile_handleSubmit now f ctx w
        = (f\<lparr>form_loading := True, message := None,
              message := Some (Success, ''Profil mis a jour avec succes''),
              form_loading := False\<rparr>,
           loadUserData (user_id u) ctx ?w1)"
      using h(1,2,3) ok
      by (simp add: profile_handleSubmit_def Let_def refreshData_def case_prod_beta)
    have cc: "ctx_company (fst (loadUserData (user_id u) ctx ?w1))
            = Some (apply_company_update ?upd c0)"
      using fu fc h(3,5) by (simp add: loadUserData_unfold split: sum.splits)
    have dbs: "db (snd (loadUserData (user_id u) ctx ?w1)) = db ?w1"
      by (rule loadUserData_db)
    have sv: "services (apply_company_update ?upd c0) = form_services f"
      by (simp add: apply_company_update_def form_update_def)
    have "form_services (company_effect (fst (loadUserData (user_id u) ctx ?w1)) f')
            = form_services f"
      using cc sv by (simp add: company_effect_def)
    then show ?thesis
      using sub fc cc dbs sv by simp
  qed
  show ?thesis
    using add rem same blank trip by blast
qed

theorem services_distinct_and_round_trip_witness:
  "distinct (form_services spa_form)
   \<and> newService spa_form = [160, 32, 77, 97, 115, 115, 97, 103, 101, 9, 8232]
   \<and> trim (newService spa_form) = js ''Massage''
   \<and> handleAddService spa_form = spa_form
   \<and> handleAddService (spa_form\<lparr>newService := [0x00A0, 0x3000]\<rparr>)
       = spa_form\<lparr>newService := [0x00A0, 0x3000]\<rparr>
   \<and> form_services (handleAddService (spa_form\<lparr>newService := js ''Sauna''\<rparr>))
       = [js ''Massage'', js ''Facial'', js ''Sauna'']
   \<and> map services (company_tbl (db (world_of spa_backend))) = [[js ''Massage'']]
   \<and> map_option services
        (ctx_company (fst (snd (profile_handleSubmit ''2026-01-05'' spa_form spa_ctx
                                  (world_of spa_backend)))))
       = Some [js ''Massage'', js ''Facial'']
   \<and> form_services
        (company_effect (fst (snd (profile_handleSubmit ''2026-01-05'' spa_form spa_ctx
                                     (world_of spa_backend)))) spa_form)
       = [js ''Massage'', js ''Facial'']"
  using services_distinct_and_round_trip
    [where f = spa_form and ctx = spa_ctx and u = spa_user and c = spa_company
       and w = "world_of spa_backend" and u' = spa_user and ?c0.0 = spa_company
       and now = "''2026-01-05''" and f' = spa_form]
    services_distinct_and_round_trip
    [where f = "spa_form\<lparr>newService := [0x00A0, 0x3000]\<rparr>"]
  by (simp add: ex_defs api_defs js_def handleAddService_def trim_def is_space_def)

end
